theory Spec2Isabelle
  imports Complex_Main "HOL-Library.Log_Nat"
begin

unbundle bit_operations_syntax

section \<open>SPFPM: a shallow embedding of \<^verbatim>\<open>FixedPoint.py\<close>\<close>

text \<open>
  Python integers are unbounded, so every integer of the module is an \<^typ>\<open>int\<close>.
  Every \<^verbatim>\<open>raise\<close> of the module, and every exception of the host that the modelled
  code can provoke, is a value of the type \<open>error\<close>; a function that can raise returns
  \<open>error + 'a\<close>, with \<open>Inl\<close> for the exception.
\<close>

subsection \<open>Exceptions and host arithmetic\<close>

datatype error =
    FXdomainError
  | FXoverflowError
  | FXfamilyError
  | FXbrokenError
  | ValueError
  | ZeroDivisionError
  | NameError

text \<open>Sequencing of two computations that may raise: the first exception wins.\<close>

definition ebind :: "error + 'a \<Rightarrow> ('a \<Rightarrow> error + 'b) \<Rightarrow> error + 'b" where
  "ebind m f = (case m of Inl e \<Rightarrow> Inl e | Inr x \<Rightarrow> f x)"

text \<open>
  \<^verbatim>\<open>a << n\<close> and \<^verbatim>\<open>a >> n\<close> on Python integers: a negative shift count raises
  \<^verbatim>\<open>ValueError\<close>; the right shift is arithmetic (it rounds towards minus infinity).
\<close>

definition py_lshift :: "int \<Rightarrow> int \<Rightarrow> error + int" where
  "py_lshift a n = (if n < 0 then Inl ValueError else Inr (push_bit (nat n) a))"

definition py_rshift :: "int \<Rightarrow> int \<Rightarrow> error + int" where
  "py_rshift a n = (if n < 0 then Inl ValueError else Inr (drop_bit (nat n) a))"

text \<open>\<^verbatim>\<open>a // b\<close> on Python integers: floor division, \<^verbatim>\<open>ZeroDivisionError\<close> at zero.\<close>

definition py_floordiv :: "int \<Rightarrow> int \<Rightarrow> error + int" where
  "py_floordiv a b = (if b = 0 then Inl ZeroDivisionError else Inr (a div b))"

subsection \<open>The class \<^verbatim>\<open>FXfamily\<close>\<close>

text \<open>
  The attributes set by \<^verbatim>\<open>FXfamily.__init__\<close>. The closure \<^verbatim>\<open>validate\<close> is one of
  two functions: the checking one, which holds \<^verbatim>\<open>thresh\<close>, or the one that returns at
  once; the field \<open>thresh\<close> is \<open>Some\<close> of the threshold for the first and \<open>None\<close>
  for the second.
\<close>

record FXfamily =
  fraction_bits :: int
  integer_bits :: "int option"
  scale :: int
  roundup :: int
  thresh :: "int option"

text \<open>
  \<^verbatim>\<open>FXfamily.__init__(self, n_bits, n_intbits)\<close>. The two shifts outside the
  \<^verbatim>\<open>try\<close> raise for a negative count. Inside the \<^verbatim>\<open>try\<close>, a \<^verbatim>\<open>None\<close> for
  \<^verbatim>\<open>n_intbits\<close> (a type error of the addition) and a negative shift count both end in
  the bare \<^verbatim>\<open>except\<close>, which installs the validator that checks nothing.
\<close>

definition FXfamily_init :: "int \<Rightarrow> int option \<Rightarrow> error + FXfamily" where
  "FXfamily_init n_bits n_intbits =
     ebind (py_lshift 1 n_bits) (\<lambda>sc.
     ebind (py_lshift 1 (n_bits - 1)) (\<lambda>ru.
       Inr \<lparr> fraction_bits = n_bits,
             integer_bits = n_intbits,
             scale = sc,
             roundup = ru,
             thresh = (case n_intbits of
                         None \<Rightarrow> None
                       | Some ib \<Rightarrow>
                           (case py_lshift 1 (n_bits + ib - 1) of
                              Inl _ \<Rightarrow> None
                            | Inr t \<Rightarrow> Some t)) \<rparr>))"

text \<open>The call \<^verbatim>\<open>family.validate(scaledval)\<close>.\<close>

definition validate :: "FXfamily \<Rightarrow> int \<Rightarrow> error + unit" where
  "validate fam sv =
     (case thresh fam of
        None \<Rightarrow> Inr ()
      | Some t \<Rightarrow> if sv \<ge> t \<or> sv < - t then Inl FXoverflowError else Inr ())"

text \<open>\<^verbatim>\<open>FXfamily.convert(self, other, other_val)\<close>.\<close>

definition convert :: "FXfamily \<Rightarrow> FXfamily \<Rightarrow> int \<Rightarrow> error + int" where
  "convert self other other_val =
     (let bit_inc = fraction_bits self - fraction_bits other in
      if bit_inc = 0 then Inr other_val
      else if bit_inc > 0 then
        ebind (py_lshift other_val bit_inc) (\<lambda>new_val.
          if other_val > 0 then
            ebind (py_lshift 1 (bit_inc - 1)) (\<lambda>b. Inr (new_val OR b))
          else
            ebind (py_lshift 1 (bit_inc - 1)) (\<lambda>b. Inr (new_val OR (b - 1))))
      else py_rshift other_val (- bit_inc))"

text \<open>
  \<^verbatim>\<open>FXfamily.augment(self, opcount)\<close>. The \<^verbatim>\<open>while\<close> loop counts the binary digits
  of \<^verbatim>\<open>nb\<close> on top of the initial four; it ends because a positive \<^verbatim>\<open>nb\<close> shrinks
  at every shift.
\<close>

function augbits_loop :: "int \<Rightarrow> int \<Rightarrow> int" where
  "augbits_loop augbits nb =
     (if nb > 0 then augbits_loop (augbits + 1) (drop_bit 1 nb) else augbits)"
  by pat_completeness auto
termination
  by (relation "measure (\<lambda>(augbits, nb). nat nb)") (auto simp: drop_bit_eq_div)

definition augment :: "FXfamily \<Rightarrow> int option \<Rightarrow> error + FXfamily" where
  "augment self opcount =
     (let nb = (case opcount of Some c \<Rightarrow> c | None \<Rightarrow> fraction_bits self)
      in FXfamily_init (fraction_bits self + augbits_loop 4 nb) None)"

subsection \<open>Comparing families\<close>

text \<open>
  The right operand of \<^verbatim>\<open>==\<close> and \<^verbatim>\<open>!=\<close> is any object. What the two methods read of
  it are the attributes \<^verbatim>\<open>fraction_bits\<close> and \<^verbatim>\<open>integer_bits\<close>: each is absent
  (\<open>None\<close>, reading it raises \<^verbatim>\<open>AttributeError\<close>) or holds an integer or
  \<^verbatim>\<open>None\<close>.
\<close>

record pyobj =
  fraction_bits_attr :: "int option option"
  integer_bits_attr :: "int option option"

definition family_obj :: "FXfamily \<Rightarrow> pyobj" where
  "family_obj fam =
     \<lparr> fraction_bits_attr = Some (Some (fraction_bits fam)),
       integer_bits_attr = Some (integer_bits fam) \<rparr>"

text \<open>
  Reading a global name in a \<^verbatim>\<open>return\<close> of the two methods. The module binds
  \<^verbatim>\<open>SPFPM_VERSION\<close>, \<^verbatim>\<open>math\<close>, \<^verbatim>\<open>log10_2\<close>, \<^verbatim>\<open>_defaultFamily\<close> and its
  classes; the booleans of the host are spelt \<^verbatim>\<open>True\<close> and \<^verbatim>\<open>False\<close>. Any other
  spelling is bound nowhere, and reading it raises \<^verbatim>\<open>NameError\<close>.
\<close>

definition load_global :: "string \<Rightarrow> error + bool" where
  "load_global nm =
     (if nm = ''True'' then Inr True
      else if nm = ''False'' then Inr False
      else Inl NameError)"

text \<open>
  \<^verbatim>\<open>FXfamily.__eq__\<close> and \<^verbatim>\<open>FXfamily.__ne__\<close>. The operators \<^verbatim>\<open>and\<close> and
  \<^verbatim>\<open>or\<close> read the second attribute only when the first comparison does not decide.
  The handler of \<^verbatim>\<open>AttributeError\<close> returns the value of the name \<^verbatim>\<open>false\<close>, or
  \<^verbatim>\<open>true\<close>.
\<close>

definition FXfamily_eq :: "FXfamily \<Rightarrow> pyobj \<Rightarrow> error + bool" where
  "FXfamily_eq self other =
     (case fraction_bits_attr other of
        None \<Rightarrow> load_global ''false''
      | Some fb \<Rightarrow>
          if Some (fraction_bits self) = fb then
            (case integer_bits_attr other of
               None \<Rightarrow> load_global ''false''
             | Some ib \<Rightarrow> Inr (integer_bits self = ib))
          else Inr False)"

definition FXfamily_ne :: "FXfamily \<Rightarrow> pyobj \<Rightarrow> error + bool" where
  "FXfamily_ne self other =
     (case fraction_bits_attr other of
        None \<Rightarrow> load_global ''true''
      | Some fb \<Rightarrow>
          if Some (fraction_bits self) \<noteq> fb then Inr True
          else
            (case integer_bits_attr other of
               None \<Rightarrow> load_global ''true''
             | Some ib \<Rightarrow> Inr (integer_bits self \<noteq> ib)))"

subsection \<open>The class \<^verbatim>\<open>FXnum\<close>\<close>

record FXnum =
  family :: FXfamily
  scaledval :: int

text \<open>
  The values given to the constructor and to the binary operators: an integer, a float,
  or an \<^verbatim>\<open>FXnum\<close>. A finite float is the exact ratio of two integers, the pair that
  \<^verbatim>\<open>as_integer_ratio\<close> returns, and \<open>PyFloat n d\<close> is the float with that pair.
\<close>

datatype pyval = PyInt int | PyFloat int int | PyFX FXnum

text \<open>\<^verbatim>\<open>FXnum._rawbuild(cls, fam, sv)\<close>.\<close>

definition rawbuild :: "FXfamily \<Rightarrow> int \<Rightarrow> error + FXnum" where
  "rawbuild fam sv =
     ebind (validate fam sv) (\<lambda>_. Inr \<lparr> family = fam, scaledval = sv \<rparr>)"

text \<open>
  \<^verbatim>\<open>FXnum(val, family)\<close> for an integer \<^verbatim>\<open>val\<close> and no keyword: the last branch of
  the constructor, where \<^verbatim>\<open>int(round(val * family.scale))\<close> is the product itself.
\<close>

definition FXnum_of_int :: "int \<Rightarrow> FXfamily \<Rightarrow> error + FXnum" where
  "FXnum_of_int val fam =
     (let sv = val * scale fam
      in ebind (validate fam sv) (\<lambda>_. Inr \<lparr> family = fam, scaledval = sv \<rparr>))"

text \<open>The body of \<^verbatim>\<open>FXnum.__truediv__\<close> once \<^verbatim>\<open>other\<close> is an \<^verbatim>\<open>FXnum\<close>.\<close>

definition truediv_same :: "FXnum \<Rightarrow> FXnum \<Rightarrow> error + FXnum" where
  "truediv_same self other =
     ebind (py_floordiv (scaledval self * scale (family self) + roundup (family self))
                        (scaledval other))
           (rawbuild (family self))"

text \<open>
  \<^verbatim>\<open>FXnum.__init__(self, val, family, **kwargs)\<close>; \<open>scaled_value\<close> is the keyword of
  that name, when given. An \<^verbatim>\<open>FXnum\<close> has the attributes the \<^verbatim>\<open>try\<close> reads, and the
  keyword is then ignored. In the float branch \<^verbatim>\<open>tmpfam(n)\<close> is the constructor on the
  integer \<^verbatim>\<open>n\<close>, and the division by the integer \<^verbatim>\<open>d\<close> first casts \<^verbatim>\<open>d\<close> into
  \<^verbatim>\<open>tmpfam\<close> with the same constructor.
\<close>

definition FXnum_init :: "pyval \<Rightarrow> FXfamily \<Rightarrow> int option \<Rightarrow> error + FXnum" where
  "FXnum_init val fam scaled_value =
     ebind
       (case val of
          PyFX v \<Rightarrow> convert fam (family v) (scaledval v)
        | PyInt i \<Rightarrow>
            (case scaled_value of
               Some sv \<Rightarrow> Inr sv
             | None \<Rightarrow> Inr (i * scale fam))
        | PyFloat n d \<Rightarrow>
            (case scaled_value of
               Some sv \<Rightarrow> Inr sv
             | None \<Rightarrow>
                 ebind (FXfamily_init (fraction_bits fam + 1) None) (\<lambda>tmpfam.
                 ebind (FXnum_of_int n tmpfam) (\<lambda>a.
                 ebind (FXnum_of_int d tmpfam) (\<lambda>b.
                 ebind (truediv_same a b) (\<lambda>q.
                   py_rshift (scaledval q + 1) 1))))))
       (\<lambda>sv. ebind (validate fam sv) (\<lambda>_. Inr \<lparr> family = fam, scaledval = sv \<rparr>))"

text \<open>\<^verbatim>\<open>FXnum._CastOrFail_(self, other)\<close>.\<close>

definition CastOrFail :: "FXnum \<Rightarrow> pyval \<Rightarrow> error + FXnum" where
  "CastOrFail self other =
     (case other of
        PyFX b \<Rightarrow>
          ebind (FXfamily_ne (family self) (family_obj (family b))) (\<lambda>differ.
            if differ then Inl FXfamilyError else Inr b)
      | _ \<Rightarrow> FXnum_init other (family self) None)"

text \<open>The unary operators \<^verbatim>\<open>__neg__\<close>, \<^verbatim>\<open>__abs__\<close> and \<^verbatim>\<open>__pos__\<close>.\<close>

definition FXnum_neg :: "FXnum \<Rightarrow> error + FXnum" where
  "FXnum_neg self = rawbuild (family self) (- scaledval self)"

definition FXnum_abs :: "FXnum \<Rightarrow> error + FXnum" where
  "FXnum_abs self = (if scaledval self < 0 then FXnum_neg self else Inr self)"

definition FXnum_pos :: "FXnum \<Rightarrow> error + FXnum" where
  "FXnum_pos self = Inr self"

text \<open>\<^verbatim>\<open>FXnum.__eq__\<close>.\<close>

definition FXnum_eq :: "FXnum \<Rightarrow> pyval \<Rightarrow> error + bool" where
  "FXnum_eq self other =
     ebind (CastOrFail self other) (\<lambda>b.
       if scaledval self = scaledval b
       then FXfamily_eq (family self) (family_obj (family b))
       else Inr False)"

text \<open>
  The binary operators \<^verbatim>\<open>__add__\<close>, \<^verbatim>\<open>__sub__\<close>, \<^verbatim>\<open>__mul__\<close>, \<^verbatim>\<open>__lshift__\<close>,
  \<^verbatim>\<open>__rshift__\<close> and \<^verbatim>\<open>__truediv__\<close>.
\<close>

definition FXnum_add :: "FXnum \<Rightarrow> pyval \<Rightarrow> error + FXnum" where
  "FXnum_add self other =
     ebind (CastOrFail self other) (\<lambda>b.
       rawbuild (family self) (scaledval self + scaledval b))"

definition FXnum_sub :: "FXnum \<Rightarrow> pyval \<Rightarrow> error + FXnum" where
  "FXnum_sub self other =
     ebind (CastOrFail self other) (\<lambda>b.
       rawbuild (family self) (scaledval self - scaledval b))"

definition FXnum_mul :: "FXnum \<Rightarrow> pyval \<Rightarrow> error + FXnum" where
  "FXnum_mul self other =
     ebind (CastOrFail self other) (\<lambda>b.
     ebind (py_floordiv (scaledval self * scaledval b + roundup (family self))
                        (scale (family self)))
           (rawbuild (family self)))"

definition FXnum_lshift :: "FXnum \<Rightarrow> int \<Rightarrow> error + FXnum" where
  "FXnum_lshift self shift =
     ebind (py_lshift (scaledval self) shift) (rawbuild (family self))"

definition FXnum_rshift :: "FXnum \<Rightarrow> int \<Rightarrow> error + FXnum" where
  "FXnum_rshift self shift =
     ebind (py_rshift (scaledval self) shift) (rawbuild (family self))"

definition FXnum_truediv :: "FXnum \<Rightarrow> pyval \<Rightarrow> error + FXnum" where
  "FXnum_truediv self other =
     ebind (CastOrFail self other) (truediv_same self)"

text \<open>The properties \<^verbatim>\<open>FXfamily.unity\<close> and \<^verbatim>\<open>FXfamily.zero\<close>.\<close>

definition unity :: "FXfamily \<Rightarrow> error + FXnum" where
  "unity self = FXnum_init (PyInt 1) self None"

definition zero :: "FXfamily \<Rightarrow> error + FXnum" where
  "zero self = FXnum_init (PyInt 0) self None"

text \<open>
  \<^verbatim>\<open>FXfamily.from2c(self, n, n_intbits)\<close>. The shift in the \<^verbatim>\<open>try\<close> fails on
  \<^verbatim>\<open>None\<close> and on a negative count; the bare \<^verbatim>\<open>except\<close> turns both into
  \<^verbatim>\<open>FXfamilyError\<close>.
\<close>

definition from2c :: "FXfamily \<Rightarrow> int \<Rightarrow> int option \<Rightarrow> error + FXnum" where
  "from2c self n n_intbits =
     (case (case n_intbits of Some k \<Rightarrow> Some k | None \<Rightarrow> integer_bits self) of
        None \<Rightarrow> Inl FXfamilyError
      | Some k \<Rightarrow>
          (case py_lshift (scale self) k of
             Inl _ \<Rightarrow> Inl FXfamilyError
           | Inr m \<Rightarrow>
               if n < 0 \<or> n \<ge> m then Inl FXdomainError
               else
                 ebind (py_rshift m 1) (\<lambda>half.
                   rawbuild self (if n < half then n else n - m))))"

text \<open>
  The rational number an \<^verbatim>\<open>FXnum\<close> stands for, \<^verbatim>\<open>scaledval / family.scale\<close>: the
  quotient that \<^verbatim>\<open>FXnum.__float__\<close> rounds to a float.
\<close>

definition fx_value :: "FXnum \<Rightarrow> rat" where
  "fx_value x = of_int (scaledval x) / of_int (scale (family x))"

text \<open>
  The two Python expressions \<^verbatim>\<open>x + x.family.zero == x\<close> and
  \<^verbatim>\<open>x * x.family.unity == x\<close>, evaluated from left to right: the property of the
  family, then the operator, then the comparison.
\<close>

definition add_zero_identity :: "FXnum \<Rightarrow> error + bool" where
  "add_zero_identity x =
     ebind (zero (family x)) (\<lambda>z.
     ebind (FXnum_add x (PyFX z)) (\<lambda>s.
       FXnum_eq s (PyFX x)))"

definition mul_unity_identity :: "FXnum \<Rightarrow> error + bool" where
  "mul_unity_identity x =
     ebind (unity (family x)) (\<lambda>u.
     ebind (FXnum_mul x (PyFX u)) (\<lambda>p.
       FXnum_eq p (PyFX x)))"

text \<open>
  Rounding to the nearest integer with halves rounded upwards, in the words of the
  specification (``round-half-up''); the operators of the module are compared with it.
\<close>

definition spec_round_half_up :: "rat \<Rightarrow> int" where
  "spec_round_half_up q = \<lfloor>q + 1 / 2\<rfloor>"

text \<open>
  The numbers a program can hold in a family: the results of the constructor, of
  \<^verbatim>\<open>from2c\<close> and of the operators. An operator that builds a new number does so for
  any left operand of the family, also one whose scaled value was assigned directly, as
  \<^verbatim>\<open>_init_sqrt\<close> does on its way; \<^verbatim>\<open>__abs__\<close> and \<^verbatim>\<open>__pos__\<close> can return
  their operand, which is then a number the program already holds. The reflected
  operators and the mathematical functions return results of these calls.
\<close>

inductive produced :: "FXfamily \<Rightarrow> FXnum \<Rightarrow> bool" for fam :: FXfamily where
  by_init: "FXnum_init val fam kw = Inr x \<Longrightarrow> produced fam x"
| by_from2c: "from2c fam n ib = Inr x \<Longrightarrow> produced fam x"
| by_neg: "family a = fam \<Longrightarrow> FXnum_neg a = Inr x \<Longrightarrow> produced fam x"
| by_abs: "produced fam a \<Longrightarrow> FXnum_abs a = Inr x \<Longrightarrow> produced fam x"
| by_pos: "produced fam a \<Longrightarrow> FXnum_pos a = Inr x \<Longrightarrow> produced fam x"
| by_add: "family a = fam \<Longrightarrow> FXnum_add a v = Inr x \<Longrightarrow> produced fam x"
| by_sub: "family a = fam \<Longrightarrow> FXnum_sub a v = Inr x \<Longrightarrow> produced fam x"
| by_mul: "family a = fam \<Longrightarrow> FXnum_mul a v = Inr x \<Longrightarrow> produced fam x"
| by_truediv: "family a = fam \<Longrightarrow> FXnum_truediv a v = Inr x \<Longrightarrow> produced fam x"
| by_lshift: "family a = fam \<Longrightarrow> FXnum_lshift a k = Inr x \<Longrightarrow> produced fam x"
| by_rshift: "family a = fam \<Longrightarrow> FXnum_rshift a k = Inr x \<Longrightarrow> produced fam x"

section \<open>Properties\<close>

subsection \<open>Host arithmetic\<close>

lemma ebind_Inr [simp]: "ebind (Inr x) f = f x"
  by (simp add: ebind_def)

lemma ebind_Inl [simp]: "ebind (Inl e) f = Inl e"
  by (simp add: ebind_def)

lemma py_lshift_nonneg: "0 \<le> n \<Longrightarrow> py_lshift a n = Inr (a * 2 ^ nat n)"
  by (simp add: py_lshift_def push_bit_eq_mult)

lemma py_rshift_nonneg: "0 \<le> n \<Longrightarrow> py_rshift a n = Inr (a div 2 ^ nat n)"
  by (simp add: py_rshift_def drop_bit_eq_div)

lemma or_low_bits:
  fixes v b :: int
  assumes "0 \<le> b" and "b < 2 ^ d"
  shows "(v * 2 ^ d) OR b = v * 2 ^ d + b"
proof -
  have low: "take_bit d b = b"
    using assms by (simp add: take_bit_int_eq_self)
  have "push_bit d v + take_bit d b = push_bit d v OR take_bit d b"
    by (rule disjunctive_add) (auto simp: bit_push_bit_iff bit_take_bit_iff)
  then show ?thesis
    by (simp add: low push_bit_eq_mult)
qed

lemma floor_div_pow2: "v div 2 ^ d = \<lfloor>real_of_int v / 2 ^ d\<rfloor>"
proof -
  have "\<lfloor>real_of_int v / real_of_int (2 ^ d)\<rfloor> = v div 2 ^ d"
    by (rule floor_divide_of_int_eq)
  moreover have "real_of_int (2 ^ d) = 2 ^ d"
    by (simp only: of_int_power of_int_numeral)
  ultimately show ?thesis by (simp only:)
qed

subsection \<open>The examples of the module's documentation\<close>

text \<open>
  The docstring of the module prints \<open>1.399902\<close> for the float \<open>1.4\<close> in a family of
  12 fractional and 4 integer bits, \<open>6.999511\<close> and \<open>-6.999511\<close> for its products with
  \<open>5\<close> and \<open>-5\<close>, and announces an overflow for the product with \<open>6\<close>; and it prints
  \<open>2.0999999999999999999\<close> for \<open>21 / 10\<close> with 64 fractional bits. The model computes
  the scaled values behind these digits. The float \<open>1.4\<close> is the ratio
  \<open>3152519739159347 / 2251799813685248\<close>.
\<close>

lemma doctest_family_12_4:
  "FXfamily_init 12 (Some 4)
     = Inr \<lparr>fraction_bits = 12, integer_bits = Some 4, scale = 4096, roundup = 2048,
       thresh = Some 32768\<rparr>"
  by (simp add: FXfamily_init_def py_lshift_def)

lemma doctest_float:
  "FXnum_init (PyFloat 3152519739159347 2251799813685248)
     \<lparr>fraction_bits = 12, integer_bits = Some 4, scale = 4096, roundup = 2048,
       thresh = Some 32768\<rparr> None
     = Inr \<lparr>family = \<lparr>fraction_bits = 12, integer_bits = Some 4, scale = 4096, roundup = 2048,
       thresh = Some 32768\<rparr>,
       scaledval = 5734\<rparr>"
  by (simp add: FXnum_init_def FXfamily_init_def py_lshift_def py_rshift_def FXnum_of_int_def
      truediv_same_def py_floordiv_def rawbuild_def validate_def)

lemma doctest_products:
  "FXnum_mul
     \<lparr>family = \<lparr>fraction_bits = 12, integer_bits = Some 4, scale = 4096, roundup = 2048,
       thresh = Some 32768\<rparr>,
       scaledval = 5734\<rparr> (PyInt 5)
     = Inr \<lparr>family = \<lparr>fraction_bits = 12, integer_bits = Some 4, scale = 4096, roundup = 2048,
       thresh = Some 32768\<rparr>,
       scaledval = 28670\<rparr>"
  "FXnum_mul
     \<lparr>family = \<lparr>fraction_bits = 12, integer_bits = Some 4, scale = 4096, roundup = 2048,
       thresh = Some 32768\<rparr>,
       scaledval = 5734\<rparr> (PyInt (- 5))
     = Inr \<lparr>family = \<lparr>fraction_bits = 12, integer_bits = Some 4, scale = 4096, roundup = 2048,
       thresh = Some 32768\<rparr>,
       scaledval = - 28670\<rparr>"
  "FXnum_mul
     \<lparr>family = \<lparr>fraction_bits = 12, integer_bits = Some 4, scale = 4096, roundup = 2048,
       thresh = Some 32768\<rparr>,
       scaledval = 5734\<rparr> (PyInt 6)
     = Inl FXoverflowError"
  by (simp_all add: FXnum_mul_def CastOrFail_def FXnum_init_def py_floordiv_def rawbuild_def
      validate_def)

lemma doctest_quotient:
  "FXfamily_init 64 None
     = Inr \<lparr>fraction_bits = 64, integer_bits = None, scale = 18446744073709551616,
       roundup = 9223372036854775808, thresh = None\<rparr>"
  "FXnum_init (PyInt 21)
     \<lparr>fraction_bits = 64, integer_bits = None, scale = 18446744073709551616,
       roundup = 9223372036854775808, thresh = None\<rparr> None
     = Inr \<lparr>family = \<lparr>fraction_bits = 64, integer_bits = None, scale = 18446744073709551616,
       roundup = 9223372036854775808, thresh = None\<rparr>,
       scaledval = 387381625547900583936\<rparr>"
  "FXnum_truediv
     \<lparr>family = \<lparr>fraction_bits = 64, integer_bits = None, scale = 18446744073709551616,
       roundup = 9223372036854775808, thresh = None\<rparr>,
       scaledval = 387381625547900583936\<rparr> (PyInt 10)
     = Inr \<lparr>family = \<lparr>fraction_bits = 64, integer_bits = None, scale = 18446744073709551616,
       roundup = 9223372036854775808, thresh = None\<rparr>,
       scaledval = 38738162554790058393\<rparr>"
  by (simp_all add: FXfamily_init_def py_lshift_def FXnum_truediv_def CastOrFail_def
      FXnum_init_def truediv_same_def py_floordiv_def rawbuild_def validate_def)

subsection \<open>Conversion between families\<close>

lemma convert_up_pos:
  assumes "fraction_bits self = fraction_bits other + int d" and "0 < d" and "0 < v"
  shows "convert self other v = Inr (v * 2 ^ d OR 2 ^ (d - 1))"
proof -
  have inc: "fraction_bits self - fraction_bits other = int d"
    using assms(1) by simp
  have "nat (int d - 1) = d - 1"
    by simp
  then show ?thesis
    unfolding convert_def Let_def inc using assms(2,3)
    by (simp add: py_lshift_nonneg)
qed

lemma convert_up_nonpos:
  assumes "fraction_bits self = fraction_bits other + int d" and "0 < d" and "v \<le> 0"
  shows "convert self other v = Inr (v * 2 ^ d OR (2 ^ (d - 1) - 1))"
proof -
  have inc: "fraction_bits self - fraction_bits other = int d"
    using assms(1) by simp
  have "nat (int d - 1) = d - 1"
    by simp
  then show ?thesis
    unfolding convert_def Let_def inc using assms(2,3)
    by (simp add: py_lshift_nonneg)
qed

lemma convert_down:
  assumes "fraction_bits other = fraction_bits self + int d" and "0 < d"
  shows "convert self other v = Inr (v div 2 ^ d)"
proof -
  have inc: "fraction_bits self - fraction_bits other = - int d"
    using assms(1) by simp
  show ?thesis
    unfolding convert_def Let_def inc using assms(2)
    by (simp add: py_rshift_nonneg)
qed

lemma convert_same:
  assumes "fraction_bits self = fraction_bits other"
  shows "convert self other v = Inr v"
  using assms by (simp add: convert_def)

lemma half_bias_low: "0 < d \<Longrightarrow> (2::int) ^ (d - 1) < 2 ^ d"
  by (rule power_strict_increasing) simp_all

text \<open>
  Claim C1, as the code has it. Let \<open>d > 0\<close>. Raising the number of fractional bits by
  \<open>d\<close>, \<open>convert\<close> returns the value shifted left by \<open>d\<close> and combined by OR with
  \<open>2 ^ (d - 1)\<close> when the value is strictly positive, and with \<open>2 ^ (d - 1) - 1\<close> when
  the value is zero or negative; the OR is an addition, since the shifted value has no
  low bits. Lowering the number of fractional bits by \<open>d\<close>, it returns the arithmetic
  right shift by \<open>d\<close>, which is the floor of the quotient by \<open>2 ^ d\<close>. For equal numbers
  of fractional bits it returns the value unchanged. It never raises.
\<close>

theorem convert_rebase:
  "(fraction_bits self = fraction_bits other + int d \<and> 0 < d \<and> 0 < v \<longrightarrow>
      convert self other v = Inr (push_bit d v OR 2 ^ (d - 1)) \<and>
      convert self other v = Inr (v * 2 ^ d + 2 ^ (d - 1))) \<and>
   (fraction_bits self = fraction_bits other + int d \<and> 0 < d \<and> v \<le> 0 \<longrightarrow>
      convert self other v = Inr (push_bit d v OR (2 ^ (d - 1) - 1)) \<and>
      convert self other v = Inr (v * 2 ^ d + 2 ^ (d - 1) - 1)) \<and>
   (fraction_bits other = fraction_bits self + int d \<and> 0 < d \<longrightarrow>
      convert self other v = Inr (drop_bit d v) \<and>
      convert self other v = Inr \<lfloor>real_of_int v / 2 ^ d\<rfloor>) \<and>
   (fraction_bits self = fraction_bits other \<longrightarrow> convert self other v = Inr v)"
proof (intro conjI impI; (elim conjE)?)
  assume up: "fraction_bits self = fraction_bits other + int d" "0 < d" and pos: "0 < v"
  from up pos show "convert self other v = Inr (push_bit d v OR 2 ^ (d - 1))"
    by (simp add: convert_up_pos push_bit_eq_mult)
  have "v * 2 ^ d OR 2 ^ (d - 1) = v * 2 ^ d + 2 ^ (d - 1)"
    using up(2) by (intro or_low_bits half_bias_low) simp
  with up pos show "convert self other v = Inr (v * 2 ^ d + 2 ^ (d - 1))"
    by (simp add: convert_up_pos)
next
  assume up: "fraction_bits self = fraction_bits other + int d" "0 < d" and neg: "v \<le> 0"
  from up neg show "convert self other v = Inr (push_bit d v OR (2 ^ (d - 1) - 1))"
    by (simp add: convert_up_nonpos push_bit_eq_mult)
  have "(2::int) ^ (d - 1) - 1 < 2 ^ d"
    using half_bias_low [OF up(2)] by linarith
  then have "v * 2 ^ d OR (2 ^ (d - 1) - 1) = v * 2 ^ d + (2 ^ (d - 1) - 1)"
    by (intro or_low_bits) simp_all
  with up neg show "convert self other v = Inr (v * 2 ^ d + 2 ^ (d - 1) - 1)"
    by (simp add: convert_up_nonpos)
next
  assume down: "fraction_bits other = fraction_bits self + int d" "0 < d"
  then show "convert self other v = Inr (drop_bit d v)"
    by (simp add: convert_down drop_bit_eq_div)
  from convert_down [OF down, of v]
  show "convert self other v = Inr \<lfloor>real_of_int v / 2 ^ d\<rfloor>"
    by (simp only: floor_div_pow2)
next
  assume "fraction_bits self = fraction_bits other"
  then show "convert self other v = Inr v"
    by (rule convert_same)
qed

theorem convert_rebase_witness:
  "convert \<lparr>fraction_bits = 8, integer_bits = None, scale = 256, roundup = 128, thresh = None\<rparr>
           \<lparr>fraction_bits = 4, integer_bits = None, scale = 16, roundup = 8, thresh = None\<rparr> 3
     = Inr 56 \<and>
   convert \<lparr>fraction_bits = 8, integer_bits = None, scale = 256, roundup = 128, thresh = None\<rparr>
           \<lparr>fraction_bits = 4, integer_bits = None, scale = 16, roundup = 8, thresh = None\<rparr> (- 3)
     = Inr (- 41) \<and>
   convert \<lparr>fraction_bits = 4, integer_bits = None, scale = 16, roundup = 8, thresh = None\<rparr>
           \<lparr>fraction_bits = 8, integer_bits = None, scale = 256, roundup = 128, thresh = None\<rparr> (- 41)
     = Inr \<lfloor>real_of_int (- 41) / 2 ^ 4\<rfloor> \<and>
   convert \<lparr>fraction_bits = 4, integer_bits = None, scale = 16, roundup = 8, thresh = None\<rparr>
           \<lparr>fraction_bits = 4, integer_bits = None, scale = 16, roundup = 8, thresh = None\<rparr> 5
     = Inr 5"
  using
    convert_rebase [of
      "\<lparr>fraction_bits = 8, integer_bits = None, scale = 256, roundup = 128, thresh = None\<rparr>"
      "\<lparr>fraction_bits = 4, integer_bits = None, scale = 16, roundup = 8, thresh = None\<rparr>" 4 3]
    convert_rebase [of
      "\<lparr>fraction_bits = 8, integer_bits = None, scale = 256, roundup = 128, thresh = None\<rparr>"
      "\<lparr>fraction_bits = 4, integer_bits = None, scale = 16, roundup = 8, thresh = None\<rparr>" 4 "- 3"]
    convert_rebase [of
      "\<lparr>fraction_bits = 4, integer_bits = None, scale = 16, roundup = 8, thresh = None\<rparr>"
      "\<lparr>fraction_bits = 8, integer_bits = None, scale = 256, roundup = 128, thresh = None\<rparr>" 4 "- 41"]
    convert_rebase [of
      "\<lparr>fraction_bits = 4, integer_bits = None, scale = 16, roundup = 8, thresh = None\<rparr>"
      "\<lparr>fraction_bits = 4, integer_bits = None, scale = 16, roundup = 8, thresh = None\<rparr>" 0 5]
  by simp

text \<open>
  Claim C1 as it is written fails at the value zero, which is not negative: the code
  takes the second branch there, so zero in a family of 4 fractional bits becomes 7, not
  8, in a family of 8.
\<close>

theorem convert_zero_counterexample:
  "\<not> ((0::int) \<le> 0 \<longrightarrow>
        convert \<lparr>fraction_bits = 8, integer_bits = None, scale = 256, roundup = 128, thresh = None\<rparr>
                \<lparr>fraction_bits = 4, integer_bits = None, scale = 16, roundup = 8, thresh = None\<rparr> 0
          = Inr (push_bit 4 0 OR 2 ^ (4 - 1)))"
  by (simp add: convert_def py_lshift_def)

subsection \<open>Families, the validator and the numbers a program holds\<close>

lemma ebind_eq_Inr: "ebind m f = Inr y \<longleftrightarrow> (\<exists>x. m = Inr x \<and> f x = Inr y)"
  by (cases m) simp_all

lemma FXfamily_init_Inr:
  "FXfamily_init n ib = Inr fam \<longleftrightarrow>
     1 \<le> n \<and>
     fam = \<lparr> fraction_bits = n, integer_bits = ib, scale = 2 ^ nat n,
             roundup = 2 ^ nat (n - 1),
             thresh = (case ib of
                         None \<Rightarrow> None
                       | Some i \<Rightarrow> if n + i - 1 < 0 then None else Some (2 ^ nat (n + i - 1))) \<rparr>"
proof (cases "1 \<le> n")
  case True
  then show ?thesis
    by (auto simp: FXfamily_init_def py_lshift_nonneg py_lshift_def push_bit_eq_mult
        split: option.splits)
next
  case False
  then have "FXfamily_init n ib = Inl ValueError"
    by (cases "n < 0") (simp_all add: FXfamily_init_def py_lshift_def)
  with False show ?thesis by simp
qed

lemma validate_bounded:
  assumes "FXfamily_init n (Some i) = Inr fam" and "0 \<le> n + i - 1"
  shows "validate fam sv =
           (if 2 ^ nat (n + i - 1) \<le> sv \<or> sv < - (2 ^ nat (n + i - 1))
            then Inl FXoverflowError else Inr ())"
  using assms by (simp add: FXfamily_init_Inr validate_def)

lemma validate_unbounded:
  assumes "FXfamily_init n None = Inr fam"
  shows "validate fam sv = Inr ()"
  using assms by (simp add: FXfamily_init_Inr validate_def)

lemma rawbuild_Inr:
  "rawbuild fam sv = Inr x \<longleftrightarrow>
     validate fam sv = Inr () \<and> x = \<lparr> family = fam, scaledval = sv \<rparr>"
  by (auto simp: rawbuild_def ebind_eq_Inr)

lemma FXnum_init_Inr:
  assumes "FXnum_init val fam kw = Inr x"
  shows "family x = fam \<and> validate fam (scaledval x) = Inr ()"
  using assms by (auto simp: FXnum_init_def ebind_eq_Inr)

lemma from2c_Inr:
  assumes "from2c fam n ib = Inr x"
  shows "family x = fam \<and> validate fam (scaledval x) = Inr ()"
  using assms
  by (auto simp: from2c_def ebind_eq_Inr rawbuild_Inr split: option.splits sum.splits if_splits)

lemma truediv_same_Inr:
  assumes "truediv_same a b = Inr x"
  shows "family x = family a \<and> validate (family a) (scaledval x) = Inr ()"
  using assms by (auto simp: truediv_same_def ebind_eq_Inr rawbuild_Inr)

lemma binop_Inr:
  assumes "FXnum_add a v = Inr x \<or> FXnum_sub a v = Inr x \<or> FXnum_mul a v = Inr x
           \<or> FXnum_truediv a v = Inr x"
  shows "family x = family a \<and> validate (family a) (scaledval x) = Inr ()"
  using assms
  by (auto simp: FXnum_add_def FXnum_sub_def FXnum_mul_def FXnum_truediv_def
      ebind_eq_Inr rawbuild_Inr truediv_same_Inr)

lemma shift_Inr:
  assumes "FXnum_lshift a k = Inr x \<or> FXnum_rshift a k = Inr x"
  shows "family x = family a \<and> validate (family a) (scaledval x) = Inr ()"
  using assms
  by (auto simp: FXnum_lshift_def FXnum_rshift_def ebind_eq_Inr rawbuild_Inr)

lemma neg_Inr:
  assumes "FXnum_neg a = Inr x"
  shows "family x = family a \<and> validate (family a) (scaledval x) = Inr ()"
  using assms by (auto simp: FXnum_neg_def rawbuild_Inr)

lemma produced_valid:
  assumes "produced fam x"
  shows "family x = fam \<and> validate fam (scaledval x) = Inr ()"
  using assms
proof (induction rule: produced.induct)
  case (by_init val kw x)
  then show ?case by (rule FXnum_init_Inr)
next
  case (by_from2c n ib x)
  then show ?case by (rule from2c_Inr)
next
  case (by_neg a x)
  then show ?case using neg_Inr [of a x] by simp
next
  case (by_abs a x)
  then show ?case using neg_Inr [of a x] by (auto simp: FXnum_abs_def split: if_splits)
next
  case (by_pos a x)
  then show ?case by (simp add: FXnum_pos_def)
next
  case (by_add a v x)
  then show ?case using binop_Inr [of a v x] by simp
next
  case (by_sub a v x)
  then show ?case using binop_Inr [of a v x] by simp
next
  case (by_mul a v x)
  then show ?case using binop_Inr [of a v x] by simp
next
  case (by_truediv a v x)
  then show ?case using binop_Inr [of a v x] by simp
next
  case (by_lshift a k x)
  then show ?case using shift_Inr [of a k x] by simp
next
  case (by_rshift a k x)
  then show ?case using shift_Inr [of a k x] by simp
qed

subsection \<open>The range of a family with a limit on its integer bits\<close>

text \<open>
  Claim C5. Let a family be built with \<open>n\<close> fractional bits and \<open>i\<close> integer bits, the
  threshold exponent \<open>n + i - 1\<close> not negative (as it is for every \<open>i \<ge> 0\<close>, since the
  constructor accepts no \<open>n < 1\<close>). Building a number with the scaled value
  \<open>2 ^ (n + i - 1) - 1\<close> succeeds, and building one with the scaled value
  \<open>2 ^ (n + i - 1)\<close> raises \<open>FXoverflowError\<close>, through \<open>_rawbuild\<close> and through the
  constructor with the keyword \<open>scaled_value\<close> alike.
\<close>

theorem overflow_boundary:
  "FXfamily_init n (Some i) = Inr fam \<and> 0 \<le> n + i - 1 \<longrightarrow>
     rawbuild fam (2 ^ nat (n + i - 1) - 1)
       = Inr \<lparr> family = fam, scaledval = 2 ^ nat (n + i - 1) - 1 \<rparr> \<and>
     FXnum_init (PyInt v) fam (Some (2 ^ nat (n + i - 1) - 1))
       = Inr \<lparr> family = fam, scaledval = 2 ^ nat (n + i - 1) - 1 \<rparr> \<and>
     rawbuild fam (2 ^ nat (n + i - 1)) = Inl FXoverflowError \<and>
     FXnum_init (PyInt v) fam (Some (2 ^ nat (n + i - 1))) = Inl FXoverflowError"
proof (intro impI, elim conjE)
  assume fam: "FXfamily_init n (Some i) = Inr fam" and nonneg: "0 \<le> n + i - 1"
  have pos: "(1::int) \<le> 2 ^ nat (n + i - 1)"
    by simp
  then have "\<not> (2 ^ nat (n + i - 1) \<le> (2::int) ^ nat (n + i - 1) - 1
               \<or> (2::int) ^ nat (n + i - 1) - 1 < - (2 ^ nat (n + i - 1)))"
    by linarith
  then have below: "validate fam (2 ^ nat (n + i - 1) - 1) = Inr ()"
    by (simp only: validate_bounded [OF fam nonneg] if_False)
  have at: "validate fam (2 ^ nat (n + i - 1)) = Inl FXoverflowError"
    by (simp add: validate_bounded [OF fam nonneg])
  show "rawbuild fam (2 ^ nat (n + i - 1) - 1)
       = Inr \<lparr> family = fam, scaledval = 2 ^ nat (n + i - 1) - 1 \<rparr> \<and>
     FXnum_init (PyInt v) fam (Some (2 ^ nat (n + i - 1) - 1))
       = Inr \<lparr> family = fam, scaledval = 2 ^ nat (n + i - 1) - 1 \<rparr> \<and>
     rawbuild fam (2 ^ nat (n + i - 1)) = Inl FXoverflowError \<and>
     FXnum_init (PyInt v) fam (Some (2 ^ nat (n + i - 1))) = Inl FXoverflowError"
    by (simp add: rawbuild_def FXnum_init_def below at)
qed

theorem overflow_boundary_witness:
  "FXfamily_init 12 (Some 4)
     = Inr \<lparr>fraction_bits = 12, integer_bits = Some 4, scale = 4096, roundup = 2048,
            thresh = Some 32768\<rparr> \<and>
   FXnum_init (PyInt 0)
     \<lparr>fraction_bits = 12, integer_bits = Some 4, scale = 4096, roundup = 2048,
       thresh = Some 32768\<rparr> (Some 32767)
     = Inr \<lparr>family = \<lparr>fraction_bits = 12, integer_bits = Some 4, scale = 4096,
                       roundup = 2048, thresh = Some 32768\<rparr>,
            scaledval = 32767\<rparr> \<and>
   FXnum_init (PyInt 0)
     \<lparr>fraction_bits = 12, integer_bits = Some 4, scale = 4096, roundup = 2048,
       thresh = Some 32768\<rparr> (Some 32768)
     = Inl FXoverflowError"
proof -
  have fam: "FXfamily_init 12 (Some 4)
     = Inr \<lparr>fraction_bits = 12, integer_bits = Some 4, scale = 4096, roundup = 2048,
            thresh = Some 32768\<rparr>"
    by (simp add: FXfamily_init_def py_lshift_def)
  have e: "(2::int) ^ nat (12 + 4 - 1) = 32768"
    by simp
  show ?thesis
    using fam overflow_boundary [of 12 4
      "\<lparr>fraction_bits = 12, integer_bits = Some 4, scale = 4096, roundup = 2048,
        thresh = Some 32768\<rparr>" 0]
    unfolding e by simp
qed

subsection \<open>Augmented families\<close>

lemma augbits_loop_bitlen: "augbits_loop a nb = a + bitlen nb"
proof (induction a nb rule: augbits_loop.induct)
  case (1 augbits nb)
  show ?case
  proof (cases "0 < nb")
    case True
    have "augbits_loop augbits nb = augbits_loop (augbits + 1) (drop_bit 1 nb)"
      using True by (subst augbits_loop.simps) simp
    also have "\<dots> = augbits + 1 + bitlen (drop_bit 1 nb)"
      using "1.IH" True by simp
    also have "bitlen (drop_bit 1 nb) = bitlen (nb div 2)"
      by (simp add: drop_bit_eq_div)
    also have "augbits + 1 + bitlen (nb div 2) = augbits + bitlen nb"
      using True by (subst (2) compute_bitlen) simp
    finally show ?thesis .
  next
    case False
    then show ?thesis
      by (subst augbits_loop.simps) (simp add: bitlen_eq_zero_iff [THEN iffD2])
  qed
qed

lemma bitlen_floor_log: "1 \<le> c \<Longrightarrow> bitlen c = \<lfloor>log 2 (real_of_int c)\<rfloor> + 1"
  by (simp add: bitlen_alt_def)

lemma bitlen_ceiling_log:
  assumes "1 \<le> c"
  shows "bitlen c = \<lceil>log 2 (real_of_int (c + 1))\<rceil>"
proof -
  have pos: "0 < c" using assms by simp
  define b where "b = bitlen c"
  have "b \<noteq> 0"
    unfolding b_def using pos by (simp add: bitlen_eq_zero_iff)
  moreover have "0 \<le> b"
    unfolding b_def by (rule bitlen_nonneg)
  ultimately have b1: "1 \<le> b"
    by linarith
  have bounds: "2 ^ nat (b - 1) \<le> c" "c < 2 ^ nat b"
    using bitlen_bounds [OF pos] unfolding b_def by blast+
  define k where "k = nat (b - 1)"
  have bk: "b = int k + 1" and nb: "nat b = k + 1"
    using b1 by (simp_all add: k_def)
  have lo: "2 ^ k \<le> c" and hi: "c < 2 ^ (k + 1)"
    using bounds unfolding nb k_def by simp_all
  have "int ((2::nat) ^ k) < c + 1"
    using lo by simp
  then have "(2::nat) ^ k < nat (c + 1)"
    using pos by linarith
  moreover have "c + 1 \<le> int ((2::nat) ^ (k + 1))"
    using hi by simp
  then have "nat (c + 1) \<le> (2::nat) ^ (k + 1)"
    by linarith
  ultimately have "\<lceil>log (real 2) (real (nat (c + 1)))\<rceil> = int k + 1"
    by (intro ceiling_log_nat_eq_if) simp_all
  moreover have "real (nat (c + 1)) = real_of_int (c + 1)"
    using pos by simp
  ultimately have "\<lceil>log 2 (real_of_int (c + 1))\<rceil> = b"
    using bk by simp
  then show ?thesis
    by (simp only: b_def)
qed

lemma augment_Some:
  "fraction_bits fam = n \<Longrightarrow>
     augment fam (Some c) = FXfamily_init (n + (4 + bitlen c)) None"
  unfolding augment_def Let_def augbits_loop_bitlen by (simp only: option.case)

text \<open>
  Claim C3, as the code has it. For a family built by the constructor and every
  \<open>opcount \<ge> 1\<close>, \<open>augment\<close> returns a new family, without a limit on its integer
  bits, whose number of fractional bits exceeds the original one by four plus the number
  of binary digits of \<open>opcount\<close>: that is \<open>4 + \<lceil>log\<^sub>2 (opcount + 1)\<rceil>\<close>, or
  \<open>4 + \<lfloor>log\<^sub>2 opcount\<rfloor> + 1\<close>. Without an \<open>opcount\<close> it does what it does for the
  family's own number of fractional bits.
\<close>

theorem augment_added_bits:
  "FXfamily_init n ib = Inr fam \<and> 1 \<le> c \<longrightarrow>
     (\<exists>aug. augment fam (Some c) = Inr aug \<and>
        fraction_bits aug = fraction_bits fam + (4 + \<lceil>log 2 (real_of_int (c + 1))\<rceil>) \<and>
        fraction_bits aug = fraction_bits fam + (4 + (\<lfloor>log 2 (real_of_int c)\<rfloor> + 1)) \<and>
        integer_bits aug = None) \<and>
     augment fam None = augment fam (Some (fraction_bits fam))"
proof (intro impI, elim conjE)
  assume fam: "FXfamily_init n ib = Inr fam" and c: "1 \<le> c"
  from fam have n: "1 \<le> n" and fb: "fraction_bits fam = n"
    by (simp_all add: FXfamily_init_Inr)
  define m where "m = n + (4 + bitlen c)"
  have "0 \<le> bitlen c"
    by (rule bitlen_nonneg)
  with n have m1: "1 \<le> m"
    unfolding m_def by linarith
  have call: "augment fam (Some c) = FXfamily_init m None"
    unfolding m_def by (rule augment_Some [OF fb])
  define aug where "aug = \<lparr> fraction_bits = m, integer_bits = None, scale = 2 ^ nat m,
      roundup = 2 ^ nat (m - 1), thresh = None \<rparr>"
  have aug: "FXfamily_init m None = Inr aug"
    unfolding FXfamily_init_Inr aug_def using m1 by simp
  have afb: "fraction_bits aug = m" and aib: "integer_bits aug = None"
    by (simp_all add: aug_def)
  have ceil: "fraction_bits aug = fraction_bits fam + (4 + \<lceil>log 2 (real_of_int (c + 1))\<rceil>)"
    unfolding afb m_def fb bitlen_ceiling_log [OF c] ..
  have floor: "fraction_bits aug = fraction_bits fam + (4 + (\<lfloor>log 2 (real_of_int c)\<rfloor> + 1))"
    unfolding afb m_def fb bitlen_floor_log [OF c] ..
  have dflt: "augment fam None = augment fam (Some (fraction_bits fam))"
    by (simp add: augment_def)
  have "augment fam (Some c) = Inr aug"
    using call aug by (rule trans)
  with ceil floor aib dflt show "(\<exists>aug. augment fam (Some c) = Inr aug \<and>
        fraction_bits aug = fraction_bits fam + (4 + \<lceil>log 2 (real_of_int (c + 1))\<rceil>) \<and>
        fraction_bits aug = fraction_bits fam + (4 + (\<lfloor>log 2 (real_of_int c)\<rfloor> + 1)) \<and>
        integer_bits aug = None) \<and>
     augment fam None = augment fam (Some (fraction_bits fam))"
    by blast
qed

theorem augment_added_bits_witness:
  "FXfamily_init 4 None
     = Inr \<lparr>fraction_bits = 4, integer_bits = None, scale = 16, roundup = 8, thresh = None\<rparr> \<and>
   (\<exists>aug. augment \<lparr>fraction_bits = 4, integer_bits = None, scale = 16, roundup = 8,
                   thresh = None\<rparr> (Some 1) = Inr aug \<and>
      fraction_bits aug = 4 + (4 + \<lceil>log 2 (real_of_int (1 + 1))\<rceil>) \<and>
      fraction_bits aug = 4 + (4 + (\<lfloor>log 2 (real_of_int 1)\<rfloor> + 1)))"
proof -
  have fam: "FXfamily_init 4 None
     = Inr \<lparr>fraction_bits = 4, integer_bits = None, scale = 16, roundup = 8, thresh = None\<rparr>"
    by (simp add: FXfamily_init_def py_lshift_def)
  from augment_added_bits [of 4 None
      "\<lparr>fraction_bits = 4, integer_bits = None, scale = 16, roundup = 8, thresh = None\<rparr>" 1]
    fam
  obtain aug where "augment \<lparr>fraction_bits = 4, integer_bits = None, scale = 16, roundup = 8,
                   thresh = None\<rparr> (Some 1) = Inr aug"
    and "fraction_bits aug = 4 + (4 + \<lceil>log 2 (real_of_int (1 + 1))\<rceil>)"
    and "fraction_bits aug = 4 + (4 + (\<lfloor>log 2 (real_of_int 1)\<rfloor> + 1))"
    by auto
  with fam show ?thesis
    by blast
qed

text \<open>
  Claim C3 as it is written gives \<open>4 + \<lceil>log\<^sub>2 opcount\<rceil>\<close> added bits. The loop
  counts digits, which is one more at every power of two: for \<open>opcount = 1\<close> a family
  of 4 fractional bits is augmented to 9, not to 8.
\<close>

theorem augment_one_counterexample:
  "augment \<lparr>fraction_bits = 4, integer_bits = None, scale = 16, roundup = 8, thresh = None\<rparr>
     (Some 1)
     = Inr \<lparr>fraction_bits = 9, integer_bits = None, scale = 512, roundup = 256, thresh = None\<rparr> \<and>
   (9::int) \<noteq> 4 + (4 + \<lceil>log 2 (real_of_int 1)\<rceil>)"
proof -
  have "bitlen 1 = 1"
    by (simp add: bitlen_alt_def)
  then have "augbits_loop 4 1 = 5"
    by (simp add: augbits_loop_bitlen)
  then show ?thesis
    by (simp add: augment_def FXfamily_init_def py_lshift_def)
qed

subsection \<open>Shifts\<close>

lemma validate_cases: "validate fam sv = Inr () \<or> validate fam sv = Inl FXoverflowError"
  by (simp add: validate_def split: option.splits)

lemma div_pow2_upper:
  fixes sv t :: int
  assumes "sv < t" and "- t \<le> sv"
  shows "sv div 2 ^ k < t"
proof -
  have t: "0 < t" using assms by linarith
  consider "sv < 0" | "sv = 0" | "0 < sv" by linarith
  then show ?thesis
  proof cases
    case 1
    have "sv div 2 ^ k < 0"
      using 1 by (simp add: pos_imp_zdiv_neg_iff)
    with t show ?thesis by linarith
  next
    case 2
    with t show ?thesis by simp
  next
    case 3
    then have "sv div 2 ^ k \<le> sv"
      by (rule int_div_le_self)
    with assms(1) show ?thesis by linarith
  qed
qed

lemma div_pow2_lower:
  fixes sv t :: int
  assumes "sv < t" and "- t \<le> sv"
  shows "- t \<le> sv div 2 ^ k"
proof -
  have t: "0 \<le> t" using assms by linarith
  have "t * 1 \<le> t * 2 ^ k"
    using t by (intro mult_left_mono) simp_all
  with assms(2) have "(- t) * 2 ^ k \<le> sv"
    by simp
  then have "((- t) * 2 ^ k) div 2 ^ k \<le> sv div 2 ^ k"
    by (rule zdiv_mono1) simp
  moreover have "((- t) * 2 ^ k) div 2 ^ k = - t"
    by (rule nonzero_mult_div_cancel_right) simp
  ultimately show ?thesis
    by (simp only:)
qed

lemma validate_div_pow2:
  assumes "validate fam sv = Inr ()"
  shows "validate fam (sv div 2 ^ k) = Inr ()"
proof (cases "thresh fam")
  case None
  then show ?thesis by (simp add: validate_def)
next
  case (Some t)
  with assms have lo: "- t \<le> sv" and hi: "sv < t"
    by (simp_all add: validate_def split: if_splits)
  from div_pow2_upper [OF hi lo, of k] div_pow2_lower [OF hi lo, of k] Some
  show ?thesis
    by (simp add: validate_def)
qed

lemma lshift_rawbuild:
  "0 \<le> k \<Longrightarrow> FXnum_lshift x k = rawbuild (family x) (scaledval x * 2 ^ nat k)"
  by (simp add: FXnum_lshift_def py_lshift_nonneg)

lemma rshift_rawbuild:
  "0 \<le> k \<Longrightarrow> FXnum_rshift x k = rawbuild (family x) (scaledval x div 2 ^ nat k)"
  by (simp add: FXnum_rshift_def py_rshift_nonneg)

lemma rawbuild_cases:
  "rawbuild fam sv =
     (if validate fam sv = Inr () then Inr \<lparr> family = fam, scaledval = sv \<rparr>
      else Inl FXoverflowError)"
  using validate_cases [of fam sv] by (auto simp: rawbuild_def)

text \<open>
  Claim C4, as the code has it. Let \<open>x\<close> be a number a program holds in a family built
  by the constructor, and \<open>k \<ge> 0\<close>. The left shift builds the number whose value is
  exactly the value of \<open>x\<close> times \<open>2 ^ k\<close>, and raises \<open>FXoverflowError\<close> instead when
  the validator of the family rejects that number. The right shift always returns, and
  its result has the scaled value \<open>\<lfloor>scaledval x / 2 ^ k\<rfloor>\<close>: its value is the value of
  \<open>x\<close> divided by \<open>2 ^ k\<close> exactly when \<open>2 ^ k\<close> divides the scaled value of \<open>x\<close>, and
  is rounded down to the resolution of the family otherwise.
\<close>

theorem shift_values:
  "FXfamily_init n ib = Inr fam \<and> produced fam x \<and> 0 \<le> k \<longrightarrow>
     FXnum_lshift x k =
       (if validate fam (scaledval x * 2 ^ nat k) = Inr ()
        then Inr \<lparr> family = fam, scaledval = scaledval x * 2 ^ nat k \<rparr>
        else Inl FXoverflowError) \<and>
     fx_value \<lparr> family = fam, scaledval = scaledval x * 2 ^ nat k \<rparr>
       = fx_value x * 2 ^ nat k \<and>
     FXnum_rshift x k = Inr \<lparr> family = fam, scaledval = scaledval x div 2 ^ nat k \<rparr> \<and>
     scaledval x div 2 ^ nat k = \<lfloor>real_of_int (scaledval x) / 2 ^ nat k\<rfloor> \<and>
     (fx_value \<lparr> family = fam, scaledval = scaledval x div 2 ^ nat k \<rparr>
        = fx_value x / 2 ^ nat k \<longleftrightarrow> 2 ^ nat k dvd scaledval x)"
proof (intro impI, elim conjE)
  assume fam: "FXfamily_init n ib = Inr fam" and x: "produced fam x" and k: "0 \<le> k"
  from produced_valid [OF x] have fx: "family x = fam" and ok: "validate fam (scaledval x) = Inr ()"
    by simp_all
  from fam have sc: "scale fam = 2 ^ nat n"
    by (simp add: FXfamily_init_Inr)
  have l: "FXnum_lshift x k =
       (if validate fam (scaledval x * 2 ^ nat k) = Inr ()
        then Inr \<lparr> family = fam, scaledval = scaledval x * 2 ^ nat k \<rparr>
        else Inl FXoverflowError)"
    by (simp only: lshift_rawbuild [OF k] fx rawbuild_cases)
  have lv: "fx_value \<lparr> family = fam, scaledval = scaledval x * 2 ^ nat k \<rparr>
       = fx_value x * 2 ^ nat k"
    by (simp add: fx_value_def fx)
  have r: "FXnum_rshift x k = Inr \<lparr> family = fam, scaledval = scaledval x div 2 ^ nat k \<rparr>"
    by (simp only: rshift_rawbuild [OF k] fx rawbuild_cases validate_div_pow2 [OF ok]
        simp_thms if_True)
  have rf: "scaledval x div 2 ^ nat k = \<lfloor>real_of_int (scaledval x) / 2 ^ nat k\<rfloor>"
    by (rule floor_div_pow2)
  have "(of_int (scaledval x div 2 ^ nat k) / of_int (2 ^ nat n)
          = (of_int (scaledval x) / of_int (2 ^ nat n) / 2 ^ nat k :: rat))
        \<longleftrightarrow> (of_int (scaledval x div 2 ^ nat k) * 2 ^ nat k = (of_int (scaledval x) :: rat))"
    by (simp add: field_simps)
  also have "\<dots> \<longleftrightarrow> scaledval x div 2 ^ nat k * 2 ^ nat k = scaledval x"
  proof -
    have "(of_int (scaledval x div 2 ^ nat k) * 2 ^ nat k :: rat)
            = of_int (scaledval x div 2 ^ nat k * 2 ^ nat k)"
      by simp
    then show ?thesis
      by (simp only: of_int_eq_iff)
  qed
  also have "\<dots> \<longleftrightarrow> 2 ^ nat k dvd scaledval x"
  proof
    assume "scaledval x div 2 ^ nat k * 2 ^ nat k = scaledval x"
    with dvd_triv_right [of "2 ^ nat k" "scaledval x div 2 ^ nat k"]
    show "2 ^ nat k dvd scaledval x"
      by (simp only:)
  next
    assume "2 ^ nat k dvd scaledval x"
    then show "scaledval x div 2 ^ nat k * 2 ^ nat k = scaledval x"
      by (rule dvd_div_mult_self)
  qed
  finally have rv: "fx_value \<lparr> family = fam, scaledval = scaledval x div 2 ^ nat k \<rparr>
        = fx_value x / 2 ^ nat k \<longleftrightarrow> 2 ^ nat k dvd scaledval x"
    by (simp add: fx_value_def fx sc)
  from l lv r rf rv show "FXnum_lshift x k =
       (if validate fam (scaledval x * 2 ^ nat k) = Inr ()
        then Inr \<lparr> family = fam, scaledval = scaledval x * 2 ^ nat k \<rparr>
        else Inl FXoverflowError) \<and>
     fx_value \<lparr> family = fam, scaledval = scaledval x * 2 ^ nat k \<rparr>
       = fx_value x * 2 ^ nat k \<and>
     FXnum_rshift x k = Inr \<lparr> family = fam, scaledval = scaledval x div 2 ^ nat k \<rparr> \<and>
     scaledval x div 2 ^ nat k = \<lfloor>real_of_int (scaledval x) / 2 ^ nat k\<rfloor> \<and>
     (fx_value \<lparr> family = fam, scaledval = scaledval x div 2 ^ nat k \<rparr>
        = fx_value x / 2 ^ nat k \<longleftrightarrow> 2 ^ nat k dvd scaledval x)"
    by (intro conjI)
qed

theorem shift_values_witness:
  "FXfamily_init 4 (Some 4)
     = Inr \<lparr>fraction_bits = 4, integer_bits = Some 4, scale = 16, roundup = 8, thresh = Some 128\<rparr> \<and>
   produced \<lparr>fraction_bits = 4, integer_bits = Some 4, scale = 16, roundup = 8, thresh = Some 128\<rparr>
     \<lparr>family = \<lparr>fraction_bits = 4, integer_bits = Some 4, scale = 16, roundup = 8, thresh = Some 128\<rparr>,
       scaledval = 25\<rparr> \<and>
   FXnum_lshift
     \<lparr>family = \<lparr>fraction_bits = 4, integer_bits = Some 4, scale = 16, roundup = 8, thresh = Some 128\<rparr>,
       scaledval = 25\<rparr> 2
     = Inr \<lparr>family = \<lparr>fraction_bits = 4, integer_bits = Some 4, scale = 16, roundup = 8, thresh = Some 128\<rparr>,
       scaledval = 100\<rparr> \<and>
   FXnum_rshift
     \<lparr>family = \<lparr>fraction_bits = 4, integer_bits = Some 4, scale = 16, roundup = 8, thresh = Some 128\<rparr>,
       scaledval = 25\<rparr> 2
     = Inr \<lparr>family = \<lparr>fraction_bits = 4, integer_bits = Some 4, scale = 16, roundup = 8, thresh = Some 128\<rparr>,
       scaledval = 6\<rparr> \<and>
   fx_value
     \<lparr>family = \<lparr>fraction_bits = 4, integer_bits = Some 4, scale = 16, roundup = 8, thresh = Some 128\<rparr>,
       scaledval = 6\<rparr>
     \<noteq> fx_value
         \<lparr>family = \<lparr>fraction_bits = 4, integer_bits = Some 4, scale = 16, roundup = 8, thresh = Some 128\<rparr>,
       scaledval = 25\<rparr> / 2 ^ nat 2"
proof -
  have fam: "FXfamily_init 4 (Some 4)
     = Inr \<lparr>fraction_bits = 4, integer_bits = Some 4, scale = 16, roundup = 8, thresh = Some 128\<rparr>"
    by (simp add: FXfamily_init_def py_lshift_def)
  have held: "produced \<lparr>fraction_bits = 4, integer_bits = Some 4, scale = 16, roundup = 8, thresh = Some 128\<rparr>
     \<lparr>family = \<lparr>fraction_bits = 4, integer_bits = Some 4, scale = 16, roundup = 8, thresh = Some 128\<rparr>,
       scaledval = 25\<rparr>"
    by (rule produced.by_init [of "PyInt 0" _ "Some 25"])
       (simp add: FXnum_init_def validate_def)
  have ok: "validate \<lparr>fraction_bits = 4, integer_bits = Some 4, scale = 16, roundup = 8, thresh = Some 128\<rparr>
      (25 * 2 ^ nat 2) = Inr ()"
    by (simp add: validate_def)
  have nd: "\<not> (2::int) ^ nat 2 dvd 25"
    by simp
  have e: "(25::int) * 2 ^ nat 2 = 100" "(25::int) div 2 ^ nat 2 = 6"
    by simp_all
  from shift_values [of 4 "Some 4"
      "\<lparr>fraction_bits = 4, integer_bits = Some 4, scale = 16, roundup = 8, thresh = Some 128\<rparr>"
      "\<lparr>family = \<lparr>fraction_bits = 4, integer_bits = Some 4, scale = 16, roundup = 8, thresh = Some 128\<rparr>,
       scaledval = 25\<rparr>" 2]
    fam held ok nd
  show ?thesis
    by (simp add: e)
qed

text \<open>
  Claim C4 as it is written has the right shift exact. It drops the low bits: the
  smallest positive number of a family of 4 fractional bits shifted right by one is
  zero, not half of it.
\<close>

theorem rshift_inexact_counterexample:
  "FXnum_init (PyInt 0)
     \<lparr>fraction_bits = 4, integer_bits = None, scale = 16, roundup = 8, thresh = None\<rparr> (Some 1)
     = Inr \<lparr>family = \<lparr>fraction_bits = 4, integer_bits = None, scale = 16, roundup = 8, thresh = None\<rparr>,
       scaledval = 1\<rparr> \<and>
   FXnum_rshift
     \<lparr>family = \<lparr>fraction_bits = 4, integer_bits = None, scale = 16, roundup = 8, thresh = None\<rparr>,
       scaledval = 1\<rparr> 1
     = Inr \<lparr>family = \<lparr>fraction_bits = 4, integer_bits = None, scale = 16, roundup = 8, thresh = None\<rparr>,
       scaledval = 0\<rparr> \<and>
   fx_value
     \<lparr>family = \<lparr>fraction_bits = 4, integer_bits = None, scale = 16, roundup = 8, thresh = None\<rparr>,
       scaledval = 0\<rparr>
     \<noteq> fx_value
         \<lparr>family = \<lparr>fraction_bits = 4, integer_bits = None, scale = 16, roundup = 8, thresh = None\<rparr>,
       scaledval = 1\<rparr> / 2 ^ 1"
  by (simp add: FXnum_init_def validate_def FXnum_rshift_def py_rshift_def rawbuild_def
      fx_value_def)

subsection \<open>Division\<close>

lemma FXfamily_ne_same [simp]: "FXfamily_ne fam (family_obj fam) = Inr False"
  by (simp add: FXfamily_ne_def family_obj_def)

lemma FXfamily_eq_same [simp]: "FXfamily_eq fam (family_obj fam) = Inr True"
  by (simp add: FXfamily_eq_def family_obj_def)

lemma CastOrFail_same:
  "family b = family a \<Longrightarrow> CastOrFail a (PyFX b) = Inr b"
  by (simp add: CastOrFail_def)

lemma validate_zero:
  assumes "FXfamily_init n ib = Inr fam"
  shows "validate fam 0 = Inr ()"
  using assms by (auto simp: FXfamily_init_Inr validate_def split: option.splits)

lemma CastOrFail_int:
  "CastOrFail a (PyInt i) = FXnum_of_int i (family a)"
  by (simp add: CastOrFail_def FXnum_init_def FXnum_of_int_def Let_def)

lemma biased_quotient_floor:
  assumes "1 \<le> n"
  shows "(sa * 2 ^ nat n + 2 ^ nat (n - 1)) div sb
           = \<lfloor>(of_int sa * of_int (2 ^ nat n) + of_int (2 ^ nat n) / 2) / (of_int sb :: rat)\<rfloor>"
proof -
  obtain m where m: "nat n = Suc m"
    using assms by (cases "nat n") simp_all
  then have m': "nat (n - 1) = m"
    by simp
  have "(of_int sa * of_int (2 ^ nat n) + of_int (2 ^ nat n) / 2 :: rat)
          = of_int (sa * 2 ^ nat n + 2 ^ nat (n - 1))"
    by (simp add: m m')
  then show ?thesis
    by (simp only: floor_divide_of_int_eq)
qed

text \<open>
  Claim C6, as the code has it. Let \<open>a\<close> and \<open>b\<close> be numbers a program holds in the
  same family, built by the constructor. When the scaled value of \<open>b\<close> is zero, the
  division raises \<open>ZeroDivisionError\<close>, the fault of the host's integer division, and so
  does the division by the integer \<open>0\<close>. Otherwise the division computes the floor of
  \<open>(scaledval a * scale + scale / 2) / scaledval b\<close> and builds the number with that
  scaled value, raising \<open>FXoverflowError\<close> when the validator of the family rejects it.
\<close>

theorem truediv_floor:
  "FXfamily_init n ib = Inr fam \<and> produced fam a \<and> produced fam b \<longrightarrow>
     (scaledval b = 0 \<longrightarrow>
        FXnum_truediv a (PyFX b) = Inl ZeroDivisionError \<and>
        FXnum_truediv a (PyInt 0) = Inl ZeroDivisionError) \<and>
     (scaledval b \<noteq> 0 \<longrightarrow>
        (let q = \<lfloor>(of_int (scaledval a) * of_int (scale fam) + of_int (scale fam) / 2)
                    / (of_int (scaledval b) :: rat)\<rfloor>
         in FXnum_truediv a (PyFX b) =
              (if validate fam q = Inr () then Inr \<lparr> family = fam, scaledval = q \<rparr>
               else Inl FXoverflowError)))"
proof (intro impI, elim conjE)
  assume fam: "FXfamily_init n ib = Inr fam" and a: "produced fam a" and b: "produced fam b"
  from produced_valid [OF a] have fa: "family a = fam" by simp
  from produced_valid [OF b] have fb: "family b = fam" by simp
  from fam have n: "1 \<le> n" and sc: "scale fam = 2 ^ nat n"
    and ru: "roundup fam = 2 ^ nat (n - 1)"
    by (simp_all add: FXfamily_init_Inr)
  have cast: "CastOrFail a (PyFX b) = Inr b"
    by (rule CastOrFail_same) (simp add: fa fb)
  have zero: "CastOrFail a (PyInt 0) = Inr \<lparr> family = fam, scaledval = 0 \<rparr>"
    by (simp add: CastOrFail_int FXnum_of_int_def fa validate_zero [OF fam])
  have z: "FXnum_truediv a (PyFX b) = Inl ZeroDivisionError \<and>
        FXnum_truediv a (PyInt 0) = Inl ZeroDivisionError" if "scaledval b = 0"
    using that by (simp add: FXnum_truediv_def cast zero truediv_same_def py_floordiv_def)
  have nz: "(let q = \<lfloor>(of_int (scaledval a) * of_int (scale fam) + of_int (scale fam) / 2)
                    / (of_int (scaledval b) :: rat)\<rfloor>
         in FXnum_truediv a (PyFX b) =
              (if validate fam q = Inr () then Inr \<lparr> family = fam, scaledval = q \<rparr>
               else Inl FXoverflowError))" if "scaledval b \<noteq> 0"
  proof -
    have "FXnum_truediv a (PyFX b)
            = rawbuild fam ((scaledval a * 2 ^ nat n + 2 ^ nat (n - 1)) div scaledval b)"
      using that by (simp add: FXnum_truediv_def cast truediv_same_def py_floordiv_def fa sc ru)
    then show ?thesis
      unfolding Let_def sc biased_quotient_floor [OF n, symmetric]
      by (simp only: rawbuild_cases)
  qed
  from z nz show "(scaledval b = 0 \<longrightarrow>
        FXnum_truediv a (PyFX b) = Inl ZeroDivisionError \<and>
        FXnum_truediv a (PyInt 0) = Inl ZeroDivisionError) \<and>
     (scaledval b \<noteq> 0 \<longrightarrow>
        (let q = \<lfloor>(of_int (scaledval a) * of_int (scale fam) + of_int (scale fam) / 2)
                    / (of_int (scaledval b) :: rat)\<rfloor>
         in FXnum_truediv a (PyFX b) =
              (if validate fam q = Inr () then Inr \<lparr> family = fam, scaledval = q \<rparr>
               else Inl FXoverflowError)))"
    by blast
qed

theorem truediv_floor_witness:
  "FXfamily_init 4 None
     = Inr \<lparr>fraction_bits = 4, integer_bits = None, scale = 16, roundup = 8, thresh = None\<rparr> \<and>
   produced \<lparr>fraction_bits = 4, integer_bits = None, scale = 16, roundup = 8, thresh = None\<rparr>
     \<lparr>family = \<lparr>fraction_bits = 4, integer_bits = None, scale = 16, roundup = 8, thresh = None\<rparr>,
       scaledval = 16\<rparr> \<and>
   produced \<lparr>fraction_bits = 4, integer_bits = None, scale = 16, roundup = 8, thresh = None\<rparr>
     \<lparr>family = \<lparr>fraction_bits = 4, integer_bits = None, scale = 16, roundup = 8, thresh = None\<rparr>,
       scaledval = 160\<rparr> \<and>
   produced \<lparr>fraction_bits = 4, integer_bits = None, scale = 16, roundup = 8, thresh = None\<rparr>
     \<lparr>family = \<lparr>fraction_bits = 4, integer_bits = None, scale = 16, roundup = 8, thresh = None\<rparr>,
       scaledval = 0\<rparr> \<and>
   FXnum_truediv
     \<lparr>family = \<lparr>fraction_bits = 4, integer_bits = None, scale = 16, roundup = 8, thresh = None\<rparr>,
       scaledval = 16\<rparr>
     (PyFX \<lparr>family = \<lparr>fraction_bits = 4, integer_bits = None, scale = 16, roundup = 8, thresh = None\<rparr>,
       scaledval = 0\<rparr>)
     = Inl ZeroDivisionError \<and>
   FXnum_truediv
     \<lparr>family = \<lparr>fraction_bits = 4, integer_bits = None, scale = 16, roundup = 8, thresh = None\<rparr>,
       scaledval = 16\<rparr>
     (PyFX \<lparr>family = \<lparr>fraction_bits = 4, integer_bits = None, scale = 16, roundup = 8, thresh = None\<rparr>,
       scaledval = 160\<rparr>)
     = Inr \<lparr>family = \<lparr>fraction_bits = 4, integer_bits = None, scale = 16, roundup = 8, thresh = None\<rparr>,
       scaledval = 1\<rparr>"
proof -
  have fam: "FXfamily_init 4 None
     = Inr \<lparr>fraction_bits = 4, integer_bits = None, scale = 16, roundup = 8, thresh = None\<rparr>"
    by (simp add: FXfamily_init_def py_lshift_def)
  have a: "produced \<lparr>fraction_bits = 4, integer_bits = None, scale = 16, roundup = 8, thresh = None\<rparr>
     \<lparr>family = \<lparr>fraction_bits = 4, integer_bits = None, scale = 16, roundup = 8, thresh = None\<rparr>,
       scaledval = 16\<rparr>"
    by (rule produced.by_init [of "PyInt 1" _ None])
       (simp add: FXnum_init_def validate_def)
  have b: "produced \<lparr>fraction_bits = 4, integer_bits = None, scale = 16, roundup = 8, thresh = None\<rparr>
     \<lparr>family = \<lparr>fraction_bits = 4, integer_bits = None, scale = 16, roundup = 8, thresh = None\<rparr>,
       scaledval = 160\<rparr>"
    by (rule produced.by_init [of "PyInt 10" _ None])
       (simp add: FXnum_init_def validate_def)
  have z: "produced \<lparr>fraction_bits = 4, integer_bits = None, scale = 16, roundup = 8, thresh = None\<rparr>
     \<lparr>family = \<lparr>fraction_bits = 4, integer_bits = None, scale = 16, roundup = 8, thresh = None\<rparr>,
       scaledval = 0\<rparr>"
    by (rule produced.by_init [of "PyInt 0" _ None])
       (simp add: FXnum_init_def validate_def)
  have q: "\<lfloor>33 / 20 :: rat\<rfloor> = 1"
    by (simp add: floor_eq_iff)
  from truediv_floor [of 4 None
      "\<lparr>fraction_bits = 4, integer_bits = None, scale = 16, roundup = 8, thresh = None\<rparr>"
      "\<lparr>family = \<lparr>fraction_bits = 4, integer_bits = None, scale = 16, roundup = 8, thresh = None\<rparr>,
       scaledval = 16\<rparr>"
      "\<lparr>family = \<lparr>fraction_bits = 4, integer_bits = None, scale = 16, roundup = 8, thresh = None\<rparr>,
       scaledval = 0\<rparr>"]
    truediv_floor [of 4 None
      "\<lparr>fraction_bits = 4, integer_bits = None, scale = 16, roundup = 8, thresh = None\<rparr>"
      "\<lparr>family = \<lparr>fraction_bits = 4, integer_bits = None, scale = 16, roundup = 8, thresh = None\<rparr>,
       scaledval = 16\<rparr>"
      "\<lparr>family = \<lparr>fraction_bits = 4, integer_bits = None, scale = 16, roundup = 8, thresh = None\<rparr>,
       scaledval = 160\<rparr>"]
    fam a b z
  show ?thesis
    by (simp add: q validate_def)
qed

text \<open>
  Claim C6 as it is written rounds halves upwards. The code takes the floor of the
  biased quotient: one divided by ten, with 4 fractional bits, is the floor of
  \<open>264 / 160\<close>, which is 1, where rounding \<open>264 / 160\<close>, or the quotient \<open>256 / 160\<close>
  itself, to the nearest integer gives 2.
\<close>

theorem truediv_rounding_counterexample:
  "FXnum_init (PyInt 1)
     \<lparr>fraction_bits = 4, integer_bits = None, scale = 16, roundup = 8, thresh = None\<rparr> None
     = Inr \<lparr>family = \<lparr>fraction_bits = 4, integer_bits = None, scale = 16, roundup = 8, thresh = None\<rparr>,
       scaledval = 16\<rparr> \<and>
   FXnum_init (PyInt 10)
     \<lparr>fraction_bits = 4, integer_bits = None, scale = 16, roundup = 8, thresh = None\<rparr> None
     = Inr \<lparr>family = \<lparr>fraction_bits = 4, integer_bits = None, scale = 16, roundup = 8, thresh = None\<rparr>,
       scaledval = 160\<rparr> \<and>
   FXnum_truediv
     \<lparr>family = \<lparr>fraction_bits = 4, integer_bits = None, scale = 16, roundup = 8, thresh = None\<rparr>,
       scaledval = 16\<rparr>
     (PyFX \<lparr>family = \<lparr>fraction_bits = 4, integer_bits = None, scale = 16, roundup = 8, thresh = None\<rparr>,
       scaledval = 160\<rparr>)
     = Inr \<lparr>family = \<lparr>fraction_bits = 4, integer_bits = None, scale = 16, roundup = 8, thresh = None\<rparr>,
       scaledval = 1\<rparr> \<and>
   spec_round_half_up ((of_int 16 * of_int 16 + of_int 16 / 2) / of_int 160) = 2 \<and>
   spec_round_half_up (of_int 16 * of_int 16 / of_int 160) = 2"
  by (simp add: FXnum_init_def validate_def FXnum_truediv_def CastOrFail_def FXfamily_ne_def
      family_obj_def truediv_same_def py_floordiv_def rawbuild_def spec_round_half_up_def floor_eq_iff)

subsection \<open>Casting into a finer family and back\<close>

lemma convert_up_bias:
  assumes "fraction_bits self = fraction_bits other + int d" and "0 < d"
  shows "\<exists>bias. 0 \<le> bias \<and> bias < 2 ^ d \<and> convert self other v = Inr (v * 2 ^ d + bias)"
proof (cases "0 < v")
  case True
  have "v * 2 ^ d OR 2 ^ (d - 1) = v * 2 ^ d + 2 ^ (d - 1)"
    using assms(2) by (intro or_low_bits half_bias_low) simp
  with convert_up_pos [OF assms True] have "convert self other v = Inr (v * 2 ^ d + 2 ^ (d - 1))"
    by simp
  moreover have "(0::int) \<le> 2 ^ (d - 1)"
    by simp
  ultimately show ?thesis
    using half_bias_low [OF assms(2)] by blast
next
  case False
  then have v: "v \<le> 0" by simp
  have lt: "(2::int) ^ (d - 1) - 1 < 2 ^ d"
    using half_bias_low [OF assms(2)] by linarith
  have ge: "(0::int) \<le> 2 ^ (d - 1) - 1"
    by simp
  have "v * 2 ^ d OR (2 ^ (d - 1) - 1) = v * 2 ^ d + (2 ^ (d - 1) - 1)"
    using ge lt by (rule or_low_bits)
  with convert_up_nonpos [OF assms v]
  have "convert self other v = Inr (v * 2 ^ d + (2 ^ (d - 1) - 1))"
    by simp
  with ge lt show ?thesis
    by blast
qed

lemma convert_roundtrip:
  assumes "fraction_bits A \<le> fraction_bits B" and "convert B A v = Inr w"
  shows "convert A B w = Inr v"
proof (cases "fraction_bits A = fraction_bits B")
  case True
  with assms(2) show ?thesis
    by (simp add: convert_def)
next
  case False
  define d where "d = nat (fraction_bits B - fraction_bits A)"
  from False assms(1) have d: "0 < d" and up: "fraction_bits B = fraction_bits A + int d"
    by (simp_all add: d_def)
  from convert_up_bias [OF up d, of v] assms(2)
  obtain bias where b: "0 \<le> bias" "bias < 2 ^ d" and w: "w = v * 2 ^ d + bias"
    by auto
  have "w div 2 ^ d = v"
    using b by (simp add: w div_pos_pos_trivial)
  with convert_down [OF up d, of w] show ?thesis
    by simp
qed

lemma FXnum_init_FX:
  "FXnum_init (PyFX x) fam kw =
     ebind (convert fam (family x) (scaledval x)) (rawbuild fam)"
  by (simp add: FXnum_init_def rawbuild_def [abs_def])

text \<open>
  Claim C7. Let \<open>A\<close> have no more fractional bits than \<open>B\<close>, and let \<open>x\<close> be a number
  a program holds in \<open>A\<close>. If the cast of \<open>x\<close> into \<open>B\<close> does not overflow, its result
  \<open>y\<close> is in \<open>B\<close>, converting the scaled value of \<open>y\<close> back gives the scaled value of
  \<open>x\<close>, and the cast of \<open>y\<close> into \<open>A\<close> returns \<open>x\<close> itself.
\<close>

theorem rescale_roundtrip:
  "fraction_bits A \<le> fraction_bits B \<and> produced A x \<and> FXnum_init (PyFX x) B kw = Inr y \<longrightarrow>
     family y = B \<and>
     convert A B (scaledval y) = Inr (scaledval x) \<and>
     FXnum_init (PyFX y) A kw' = Inr x"
proof (intro impI, elim conjE)
  assume le: "fraction_bits A \<le> fraction_bits B" and x: "produced A x"
    and y: "FXnum_init (PyFX x) B kw = Inr y"
  from produced_valid [OF x] have fx: "family x = A" and ok: "validate A (scaledval x) = Inr ()"
    by simp_all
  from y have fy: "family y = B" and up: "convert B A (scaledval x) = Inr (scaledval y)"
    by (auto simp: FXnum_init_FX fx ebind_eq_Inr rawbuild_Inr)
  from convert_roundtrip [OF le up] have rt: "convert A B (scaledval y) = Inr (scaledval x)" .
  have "x = \<lparr> family = A, scaledval = scaledval x \<rparr>"
    using fx by simp
  then have "FXnum_init (PyFX y) A kw' = Inr x"
    by (simp add: FXnum_init_FX fy rt rawbuild_cases ok)
  with fy rt show "family y = B \<and>
     convert A B (scaledval y) = Inr (scaledval x) \<and>
     FXnum_init (PyFX y) A kw' = Inr x"
    by (intro conjI)
qed

theorem rescale_roundtrip_witness:
  "fraction_bits \<lparr>fraction_bits = 4, integer_bits = Some 4, scale = 16, roundup = 8, thresh = Some 128\<rparr>
     \<le> fraction_bits \<lparr>fraction_bits = 8, integer_bits = None, scale = 256, roundup = 128, thresh = None\<rparr> \<and>
   produced \<lparr>fraction_bits = 4, integer_bits = Some 4, scale = 16, roundup = 8, thresh = Some 128\<rparr>
     \<lparr>family = \<lparr>fraction_bits = 4, integer_bits = Some 4, scale = 16, roundup = 8, thresh = Some 128\<rparr>,
       scaledval = - 3\<rparr> \<and>
   FXnum_init
     (PyFX \<lparr>family = \<lparr>fraction_bits = 4, integer_bits = Some 4, scale = 16, roundup = 8, thresh = Some 128\<rparr>,
       scaledval = - 3\<rparr>)
     \<lparr>fraction_bits = 8, integer_bits = None, scale = 256, roundup = 128, thresh = None\<rparr> None
     = Inr \<lparr>family = \<lparr>fraction_bits = 8, integer_bits = None, scale = 256, roundup = 128, thresh = None\<rparr>,
       scaledval = - 41\<rparr> \<and>
   FXnum_init
     (PyFX \<lparr>family = \<lparr>fraction_bits = 8, integer_bits = None, scale = 256, roundup = 128, thresh = None\<rparr>,
       scaledval = - 41\<rparr>)
     \<lparr>fraction_bits = 4, integer_bits = Some 4, scale = 16, roundup = 8, thresh = Some 128\<rparr> None
     = Inr \<lparr>family = \<lparr>fraction_bits = 4, integer_bits = Some 4, scale = 16, roundup = 8, thresh = Some 128\<rparr>,
       scaledval = - 3\<rparr>"
proof -
  have x: "produced \<lparr>fraction_bits = 4, integer_bits = Some 4, scale = 16, roundup = 8, thresh = Some 128\<rparr>
     \<lparr>family = \<lparr>fraction_bits = 4, integer_bits = Some 4, scale = 16, roundup = 8, thresh = Some 128\<rparr>,
       scaledval = - 3\<rparr>"
    by (rule produced.by_init [of "PyInt 0" _ "Some (- 3)"])
       (simp add: FXnum_init_def validate_def)
  have y: "FXnum_init
     (PyFX \<lparr>family = \<lparr>fraction_bits = 4, integer_bits = Some 4, scale = 16, roundup = 8, thresh = Some 128\<rparr>,
       scaledval = - 3\<rparr>)
     \<lparr>fraction_bits = 8, integer_bits = None, scale = 256, roundup = 128, thresh = None\<rparr> None
     = Inr \<lparr>family = \<lparr>fraction_bits = 8, integer_bits = None, scale = 256, roundup = 128, thresh = None\<rparr>,
       scaledval = - 41\<rparr>"
    by (simp add: FXnum_init_def convert_def py_lshift_def validate_def)
  from rescale_roundtrip [of
      "\<lparr>fraction_bits = 4, integer_bits = Some 4, scale = 16, roundup = 8, thresh = Some 128\<rparr>"
      "\<lparr>fraction_bits = 8, integer_bits = None, scale = 256, roundup = 128, thresh = None\<rparr>"
      "\<lparr>family = \<lparr>fraction_bits = 4, integer_bits = Some 4, scale = 16, roundup = 8, thresh = Some 128\<rparr>,
       scaledval = - 3\<rparr>" None
      "\<lparr>family = \<lparr>fraction_bits = 8, integer_bits = None, scale = 256, roundup = 128, thresh = None\<rparr>,
       scaledval = - 41\<rparr>" None]
    x y
  show ?thesis
    by simp
qed

subsection \<open>The additive and the multiplicative identity\<close>

lemma FXnum_eq_self: "FXnum_eq x (PyFX x) = Inr True"
  by (simp add: FXnum_eq_def CastOrFail_same)

lemma zero_Inr:
  assumes "FXfamily_init n ib = Inr fam"
  shows "zero fam = Inr \<lparr> family = fam, scaledval = 0 \<rparr>"
  by (simp add: zero_def FXnum_init_def validate_zero [OF assms])

lemma unity_rawbuild:
  assumes "FXfamily_init n ib = Inr fam"
  shows "unity fam = rawbuild fam (2 ^ nat n)"
  using assms by (simp add: unity_def FXnum_init_def rawbuild_def FXfamily_init_Inr)

lemma mul_by_scale:
  assumes "1 \<le> n"
  shows "(sv * 2 ^ nat n + 2 ^ nat (n - 1)) div 2 ^ nat n = (sv :: int)"
proof -
  have "0 < nat n" using assms by simp
  from half_bias_low [OF this] have lt: "(2::int) ^ nat (n - 1) < 2 ^ nat n"
    using assms by (simp add: nat_diff_distrib)
  have "(2 ^ nat (n - 1) + sv * 2 ^ nat n) div 2 ^ nat n
          = sv + 2 ^ nat (n - 1) div 2 ^ nat n"
    by (rule div_mult_self1) simp
  also have "(2::int) ^ nat (n - 1) div 2 ^ nat n = 0"
    using lt by (simp add: div_pos_pos_trivial)
  finally show ?thesis
    by (simp add: add.commute)
qed

text \<open>
  Claim C8, as the code has it. Let \<open>x\<close> be a number a program holds in a family built
  by the constructor. The family's \<open>zero\<close> exists, \<open>x + zero\<close> is \<open>x\<close>, and the
  comparison \<open>x + zero == x\<close> is true. Whenever the family's \<open>unity\<close> exists,
  \<open>x * unity\<close> is \<open>x\<close> and \<open>x * unity == x\<close> is true; it exists in every family without
  a limit on the integer bits and in every family with at least two integer bits. With
  no or one integer bit the value one is outside the range of the family: \<open>unity\<close>
  raises \<open>FXoverflowError\<close>, and so does the expression \<open>x * unity == x\<close>.
\<close>

theorem identities:
  "FXfamily_init n ib = Inr fam \<and> produced fam x \<longrightarrow>
     (\<exists>z. zero fam = Inr z \<and> FXnum_add x (PyFX z) = Inr x) \<and>
     add_zero_identity x = Inr True \<and>
     (\<forall>u. unity fam = Inr u \<longrightarrow>
        FXnum_mul x (PyFX u) = Inr x \<and> mul_unity_identity x = Inr True) \<and>
     (ib = None \<or> (\<exists>i. ib = Some i \<and> 2 \<le> i) \<longrightarrow> (\<exists>u. unity fam = Inr u)) \<and>
     (ib = Some 0 \<or> ib = Some 1 \<longrightarrow>
        unity fam = Inl FXoverflowError \<and> mul_unity_identity x = Inl FXoverflowError)"
proof (intro impI, elim conjE)
  assume fam: "FXfamily_init n ib = Inr fam" and x: "produced fam x"
  from produced_valid [OF x] have fx: "family x = fam" and ok: "validate fam (scaledval x) = Inr ()"
    by simp_all
  have xr: "\<lparr> family = fam, scaledval = scaledval x \<rparr> = x"
    using fx by simp
  from fam have n: "1 \<le> n" and sc: "scale fam = 2 ^ nat n"
    and ru: "roundup fam = 2 ^ nat (n - 1)"
    by (simp_all add: FXfamily_init_Inr)
  note z = zero_Inr [OF fam]
  have add: "FXnum_add x (PyFX \<lparr> family = fam, scaledval = 0 \<rparr>) = Inr x"
    by (simp add: FXnum_add_def CastOrFail_same fx rawbuild_cases ok xr)
  have c1: "\<exists>z. zero fam = Inr z \<and> FXnum_add x (PyFX z) = Inr x"
    using z add by blast
  have c2: "add_zero_identity x = Inr True"
    by (simp add: add_zero_identity_def fx z add FXnum_eq_self)
  have mul: "FXnum_mul x (PyFX u) = Inr x" if "unity fam = Inr u" for u
  proof -
    from that have u: "u = \<lparr> family = fam, scaledval = 2 ^ nat n \<rparr>"
      by (simp add: unity_rawbuild [OF fam] rawbuild_Inr)
    show ?thesis
      by (simp add: FXnum_mul_def CastOrFail_same fx u py_floordiv_def sc ru
          mul_by_scale [OF n] rawbuild_cases ok xr)
  qed
  have c3: "\<forall>u. unity fam = Inr u \<longrightarrow>
        FXnum_mul x (PyFX u) = Inr x \<and> mul_unity_identity x = Inr True"
  proof (intro allI impI)
    fix u assume u: "unity fam = Inr u"
    show "FXnum_mul x (PyFX u) = Inr x \<and> mul_unity_identity x = Inr True"
      by (simp add: mul_unity_identity_def fx u mul [OF u] FXnum_eq_self)
  qed
  have c4: "\<exists>u. unity fam = Inr u" if "ib = None \<or> (\<exists>i. ib = Some i \<and> 2 \<le> i)"
  proof -
    have "validate fam (2 ^ nat n) = Inr ()"
      using that
    proof
      assume "ib = None"
      with fam show ?thesis
        by (simp add: validate_unbounded)
    next
      assume "\<exists>i. ib = Some i \<and> 2 \<le> i"
      then obtain i where i: "ib = Some i" "2 \<le> i"
        by blast
      have nn: "0 \<le> n + i - 1"
        using n i(2) by simp
      have "nat n < nat (n + i - 1)"
        using n i(2) by simp
      then have "(2::int) ^ nat n < 2 ^ nat (n + i - 1)"
        by (rule power_strict_increasing) simp
      moreover have "- (2 ^ nat (n + i - 1)) \<le> (2::int) ^ nat n"
        by (rule order_trans [of _ 0]) simp_all
      ultimately have "\<not> (2 ^ nat (n + i - 1) \<le> (2::int) ^ nat n
                         \<or> (2::int) ^ nat n < - (2 ^ nat (n + i - 1)))"
        by linarith
      then show ?thesis
        by (simp only: validate_bounded [OF fam [unfolded i(1)] nn] if_False)
    qed
    then show ?thesis
      by (simp add: unity_rawbuild [OF fam] rawbuild_cases)
  qed
  have c5: "unity fam = Inl FXoverflowError \<and> mul_unity_identity x = Inl FXoverflowError"
    if "ib = Some 0 \<or> ib = Some 1"
  proof -
    from that have "\<exists>i. ib = Some i \<and> 0 \<le> i \<and> i \<le> 1"
      by (elim disjE) simp_all
    then obtain i where i: "ib = Some i" "0 \<le> i" "i \<le> 1"
      by blast
    have nn: "0 \<le> n + i - 1"
      using n i(2) by simp
    have "nat (n + i - 1) \<le> nat n"
      using i(3) by simp
    then have "(2::int) ^ nat (n + i - 1) \<le> 2 ^ nat n"
      by (rule power_increasing) simp
    then have "2 ^ nat (n + i - 1) \<le> (2::int) ^ nat n
                 \<or> (2::int) ^ nat n < - (2 ^ nat (n + i - 1))"
      by (rule disjI1)
    then have "validate fam (2 ^ nat n) = Inl FXoverflowError"
      by (simp only: validate_bounded [OF fam [unfolded i(1)] nn] if_True)
    then have "unity fam = Inl FXoverflowError"
      by (simp add: unity_rawbuild [OF fam] rawbuild_def)
    then show ?thesis
      by (simp add: mul_unity_identity_def fx)
  qed
  from c1 c2 c3 c4 c5 show "(\<exists>z. zero fam = Inr z \<and> FXnum_add x (PyFX z) = Inr x) \<and>
     add_zero_identity x = Inr True \<and>
     (\<forall>u. unity fam = Inr u \<longrightarrow>
        FXnum_mul x (PyFX u) = Inr x \<and> mul_unity_identity x = Inr True) \<and>
     (ib = None \<or> (\<exists>i. ib = Some i \<and> 2 \<le> i) \<longrightarrow> (\<exists>u. unity fam = Inr u)) \<and>
     (ib = Some 0 \<or> ib = Some 1 \<longrightarrow>
        unity fam = Inl FXoverflowError \<and> mul_unity_identity x = Inl FXoverflowError)"
    by blast
qed

theorem identities_witness:
  "FXfamily_init 4 (Some 4)
     = Inr \<lparr>fraction_bits = 4, integer_bits = Some 4, scale = 16, roundup = 8, thresh = Some 128\<rparr> \<and>
   produced \<lparr>fraction_bits = 4, integer_bits = Some 4, scale = 16, roundup = 8, thresh = Some 128\<rparr>
     \<lparr>family = \<lparr>fraction_bits = 4, integer_bits = Some 4, scale = 16, roundup = 8, thresh = Some 128\<rparr>,
       scaledval = 24\<rparr> \<and>
   add_zero_identity
     \<lparr>family = \<lparr>fraction_bits = 4, integer_bits = Some 4, scale = 16, roundup = 8, thresh = Some 128\<rparr>,
       scaledval = 24\<rparr> = Inr True \<and>
   mul_unity_identity
     \<lparr>family = \<lparr>fraction_bits = 4, integer_bits = Some 4, scale = 16, roundup = 8, thresh = Some 128\<rparr>,
       scaledval = 24\<rparr> = Inr True \<and>
   FXfamily_init 4 (Some 1)
     = Inr \<lparr>fraction_bits = 4, integer_bits = Some 1, scale = 16, roundup = 8, thresh = Some 16\<rparr> \<and>
   produced \<lparr>fraction_bits = 4, integer_bits = Some 1, scale = 16, roundup = 8, thresh = Some 16\<rparr>
     \<lparr>family = \<lparr>fraction_bits = 4, integer_bits = Some 1, scale = 16, roundup = 8, thresh = Some 16\<rparr>,
       scaledval = 8\<rparr> \<and>
   add_zero_identity
     \<lparr>family = \<lparr>fraction_bits = 4, integer_bits = Some 1, scale = 16, roundup = 8, thresh = Some 16\<rparr>,
       scaledval = 8\<rparr> = Inr True \<and>
   mul_unity_identity
     \<lparr>family = \<lparr>fraction_bits = 4, integer_bits = Some 1, scale = 16, roundup = 8, thresh = Some 16\<rparr>,
       scaledval = 8\<rparr> = Inl FXoverflowError"
proof -
  have fam: "FXfamily_init 4 (Some 4)
     = Inr \<lparr>fraction_bits = 4, integer_bits = Some 4, scale = 16, roundup = 8, thresh = Some 128\<rparr>"
    by (simp add: FXfamily_init_def py_lshift_def)
  have held: "produced \<lparr>fraction_bits = 4, integer_bits = Some 4, scale = 16, roundup = 8, thresh = Some 128\<rparr>
     \<lparr>family = \<lparr>fraction_bits = 4, integer_bits = Some 4, scale = 16, roundup = 8, thresh = Some 128\<rparr>,
       scaledval = 24\<rparr>"
    by (rule produced.by_init [of "PyInt 0" _ "Some 24"])
       (simp add: FXnum_init_def validate_def)
  have fam': "FXfamily_init 4 (Some 1)
     = Inr \<lparr>fraction_bits = 4, integer_bits = Some 1, scale = 16, roundup = 8, thresh = Some 16\<rparr>"
    by (simp add: FXfamily_init_def py_lshift_def)
  have held': "produced \<lparr>fraction_bits = 4, integer_bits = Some 1, scale = 16, roundup = 8, thresh = Some 16\<rparr>
     \<lparr>family = \<lparr>fraction_bits = 4, integer_bits = Some 1, scale = 16, roundup = 8, thresh = Some 16\<rparr>,
       scaledval = 8\<rparr>"
    by (rule produced.by_init [of "PyInt 0" _ "Some 8"])
       (simp add: FXnum_init_def validate_def)
  have wide: "Some (4::int) = None \<or> (\<exists>i. Some (4::int) = Some i \<and> 2 \<le> i)"
    by simp
  have narrow: "Some (1::int) = Some 0 \<or> Some (1::int) = Some 1"
    by simp
  from identities [of 4 "Some 4"
      "\<lparr>fraction_bits = 4, integer_bits = Some 4, scale = 16, roundup = 8, thresh = Some 128\<rparr>"
      "\<lparr>family = \<lparr>fraction_bits = 4, integer_bits = Some 4, scale = 16, roundup = 8, thresh = Some 128\<rparr>,
       scaledval = 24\<rparr>"]
    fam held wide
  have one: "add_zero_identity
     \<lparr>family = \<lparr>fraction_bits = 4, integer_bits = Some 4, scale = 16, roundup = 8, thresh = Some 128\<rparr>,
       scaledval = 24\<rparr> = Inr True \<and>
   mul_unity_identity
     \<lparr>family = \<lparr>fraction_bits = 4, integer_bits = Some 4, scale = 16, roundup = 8, thresh = Some 128\<rparr>,
       scaledval = 24\<rparr> = Inr True"
    by blast
  from identities [of 4 "Some 1"
      "\<lparr>fraction_bits = 4, integer_bits = Some 1, scale = 16, roundup = 8, thresh = Some 16\<rparr>"
      "\<lparr>family = \<lparr>fraction_bits = 4, integer_bits = Some 1, scale = 16, roundup = 8, thresh = Some 16\<rparr>,
       scaledval = 8\<rparr>"]
    fam' held' narrow
  have two: "add_zero_identity
     \<lparr>family = \<lparr>fraction_bits = 4, integer_bits = Some 1, scale = 16, roundup = 8, thresh = Some 16\<rparr>,
       scaledval = 8\<rparr> = Inr True \<and>
   mul_unity_identity
     \<lparr>family = \<lparr>fraction_bits = 4, integer_bits = Some 1, scale = 16, roundup = 8, thresh = Some 16\<rparr>,
       scaledval = 8\<rparr> = Inl FXoverflowError"
    by blast
  from fam held one fam' held' two show ?thesis
    by (intro conjI) (erule conjunct1 conjunct2 | assumption)+
qed

text \<open>
  Claim C8 as it is written holds in every family. In a family of 4 fractional bits and
  one integer bit the range ends below one, and the multiplicative identity of the
  number one half cannot be evaluated.
\<close>

theorem unity_overflow_counterexample:
  "FXfamily_init 4 (Some 1)
     = Inr \<lparr>fraction_bits = 4, integer_bits = Some 1, scale = 16, roundup = 8, thresh = Some 16\<rparr> \<and>
   FXnum_init (PyInt 0)
     \<lparr>fraction_bits = 4, integer_bits = Some 1, scale = 16, roundup = 8, thresh = Some 16\<rparr> (Some 8)
     = Inr \<lparr>family = \<lparr>fraction_bits = 4, integer_bits = Some 1, scale = 16, roundup = 8, thresh = Some 16\<rparr>,
       scaledval = 8\<rparr> \<and>
   unity \<lparr>fraction_bits = 4, integer_bits = Some 1, scale = 16, roundup = 8, thresh = Some 16\<rparr>
     = Inl FXoverflowError \<and>
   mul_unity_identity
     \<lparr>family = \<lparr>fraction_bits = 4, integer_bits = Some 1, scale = 16, roundup = 8, thresh = Some 16\<rparr>,
       scaledval = 8\<rparr> = Inl FXoverflowError"
  by (simp add: FXfamily_init_def py_lshift_def FXnum_init_def validate_def unity_def
      mul_unity_identity_def)

subsection \<open>Decoding two's complement\<close>

lemma from2c_unknown:
  "integer_bits fam = None \<Longrightarrow> from2c fam raw None = Inl FXfamilyError"
  by (simp add: from2c_def)

lemma from2c_known:
  assumes fam: "FXfamily_init n ib = Inr fam"
    and bits: "ovr = Some k \<or> (ovr = None \<and> ib = Some k)"
    and k: "0 \<le> k"
  shows "from2c fam raw ovr =
           (if raw < 0 \<or> 2 ^ nat (n + k) \<le> raw then Inl FXdomainError
            else rawbuild fam
                   (if raw < 2 ^ nat (n + k - 1) then raw else raw - 2 ^ nat (n + k)))"
proof -
  from fam have n: "1 \<le> n" and sc: "scale fam = 2 ^ nat n" and fib: "integer_bits fam = ib"
    by (simp_all add: FXfamily_init_Inr)
  have eff: "(case ovr of Some k \<Rightarrow> Some k | None \<Rightarrow> integer_bits fam) = Some k"
    using bits by (auto simp: fib)
  have "nat (n + k) = nat n + nat k"
    using n k by (simp add: nat_add_distrib)
  then have m: "py_lshift (scale fam) k = Inr (2 ^ nat (n + k))"
    using k by (simp add: py_lshift_nonneg sc power_add)
  obtain j where j: "nat (n + k) = Suc j"
    using n k by (cases "nat (n + k)") simp_all
  then have j': "nat (n + k - 1) = j"
    by simp
  have half: "py_rshift (2 ^ nat (n + k)) 1 = Inr (2 ^ nat (n + k - 1))"
    by (simp add: py_rshift_nonneg j j')
  show ?thesis
    unfolding from2c_def eff by (simp add: m half not_le)
qed

lemma pow2_mono_int: "a \<le> b \<Longrightarrow> (2::int) ^ nat a \<le> 2 ^ nat b"
  by (rule power_increasing) simp_all

text \<open>
  Claim C9, as the code has it. Let the family be built by the constructor with \<open>n\<close>
  fractional bits. Without an override, and without integer bits of its own, \<open>from2c\<close>
  raises \<open>FXfamilyError\<close>. Let \<open>k \<ge> 0\<close> be the number of integer bits in force, the
  override when there is one and the family's own otherwise. Raw bits outside
  \<open>[0, 2 ^ (n + k))\<close> raise \<open>FXdomainError\<close>. Raw bits inside decode to themselves
  below \<open>2 ^ (n + k - 1)\<close> and to themselves minus \<open>2 ^ (n + k)\<close> from there on, and
  \<open>from2c\<close> builds the number with the decoded scaled value when the validator of the
  family accepts it, and raises \<open>FXoverflowError\<close> otherwise. The validator accepts it
  whenever the family has no limit on its integer bits or \<open>k\<close> does not exceed the
  family's own number of integer bits, so in particular without an override.
\<close>

theorem from2c_decode:
  "FXfamily_init n ib = Inr fam \<longrightarrow>
     (ib = None \<longrightarrow> from2c fam raw None = Inl FXfamilyError) \<and>
     ((ovr = Some k \<or> (ovr = None \<and> ib = Some k)) \<and> 0 \<le> k \<longrightarrow>
        (raw < 0 \<or> 2 ^ nat (n + k) \<le> raw \<longrightarrow> from2c fam raw ovr = Inl FXdomainError) \<and>
        (0 \<le> raw \<and> raw < 2 ^ nat (n + k) \<longrightarrow>
           (let sv = (if raw < 2 ^ nat (n + k - 1) then raw else raw - 2 ^ nat (n + k))
            in from2c fam raw ovr =
                 (if validate fam sv = Inr () then Inr \<lparr> family = fam, scaledval = sv \<rparr>
                  else Inl FXoverflowError) \<and>
               (ib = None \<or> (\<exists>i. ib = Some i \<and> k \<le> i) \<longrightarrow>
                  from2c fam raw ovr = Inr \<lparr> family = fam, scaledval = sv \<rparr>))))"
proof (intro impI conjI; (elim conjE)?)
  assume fam: "FXfamily_init n ib = Inr fam" and "ib = None"
  then show "from2c fam raw None = Inl FXfamilyError"
    by (simp add: from2c_unknown FXfamily_init_Inr)
next
  assume fam: "FXfamily_init n ib = Inr fam"
    and bits: "ovr = Some k \<or> (ovr = None \<and> ib = Some k)" and k: "0 \<le> k"
    and out: "raw < 0 \<or> 2 ^ nat (n + k) \<le> raw"
  from out show "from2c fam raw ovr = Inl FXdomainError"
    by (simp only: from2c_known [OF fam bits k] if_True)
next
  assume fam: "FXfamily_init n ib = Inr fam"
    and bits: "ovr = Some k \<or> (ovr = None \<and> ib = Some k)" and k: "0 \<le> k"
    and lo: "0 \<le> raw" and hi: "raw < 2 ^ nat (n + k)"
  from fam have n: "1 \<le> n"
    by (simp add: FXfamily_init_Inr)
  define sv where "sv = (if raw < 2 ^ nat (n + k - 1) then raw else raw - 2 ^ nat (n + k))"
  from lo hi have "\<not> (raw < 0 \<or> 2 ^ nat (n + k) \<le> raw)"
    by linarith
  then have dec: "from2c fam raw ovr = rawbuild fam sv"
    by (simp only: from2c_known [OF fam bits k] if_False sv_def)
  obtain j where j: "nat (n + k) = Suc j"
    using n k by (cases "nat (n + k)") simp_all
  then have j': "nat (n + k - 1) = j"
    by simp
  have range: "- (2 ^ nat (n + k - 1)) \<le> sv \<and> sv < 2 ^ nat (n + k - 1)"
    using lo hi by (simp add: sv_def j j')
  have ret: "from2c fam raw ovr = Inr \<lparr> family = fam, scaledval = sv \<rparr>"
    if "ib = None \<or> (\<exists>i. ib = Some i \<and> k \<le> i)"
  proof -
    have "validate fam sv = Inr ()"
      using that
    proof
      assume "ib = None"
      with fam show ?thesis
        by (simp add: validate_unbounded)
    next
      assume "\<exists>i. ib = Some i \<and> k \<le> i"
      then obtain i where i: "ib = Some i" "k \<le> i"
        by blast
      have nn: "0 \<le> n + i - 1"
        using n k i(2) by simp
      have "(2::int) ^ nat (n + k - 1) \<le> 2 ^ nat (n + i - 1)"
        using i(2) by (intro pow2_mono_int) simp
      with range have "\<not> (2 ^ nat (n + i - 1) \<le> sv \<or> sv < - (2 ^ nat (n + i - 1)))"
        by linarith
      then show ?thesis
        by (simp only: validate_bounded [OF fam [unfolded i(1)] nn] if_False)
    qed
    then show ?thesis
      by (simp add: dec rawbuild_cases)
  qed
  show "let sv = (if raw < 2 ^ nat (n + k - 1) then raw else raw - 2 ^ nat (n + k))
            in from2c fam raw ovr =
                 (if validate fam sv = Inr () then Inr \<lparr> family = fam, scaledval = sv \<rparr>
                  else Inl FXoverflowError) \<and>
               (ib = None \<or> (\<exists>i. ib = Some i \<and> k \<le> i) \<longrightarrow>
                  from2c fam raw ovr = Inr \<lparr> family = fam, scaledval = sv \<rparr>)"
    unfolding Let_def sv_def [symmetric] using ret by (simp add: dec rawbuild_cases)
qed

theorem from2c_decode_witness:
  "FXfamily_init 4 (Some 2)
     = Inr \<lparr>fraction_bits = 4, integer_bits = Some 2, scale = 16, roundup = 8, thresh = Some 32\<rparr> \<and>
   FXfamily_init 4 None
     = Inr \<lparr>fraction_bits = 4, integer_bits = None, scale = 16, roundup = 8, thresh = None\<rparr> \<and>
   from2c \<lparr>fraction_bits = 4, integer_bits = None, scale = 16, roundup = 8, thresh = None\<rparr> 7 None
     = Inl FXfamilyError \<and>
   from2c \<lparr>fraction_bits = 4, integer_bits = Some 2, scale = 16, roundup = 8, thresh = Some 32\<rparr> 64 None
     = Inl FXdomainError \<and>
   from2c \<lparr>fraction_bits = 4, integer_bits = Some 2, scale = 16, roundup = 8, thresh = Some 32\<rparr> 40 None
     = Inr \<lparr>family = \<lparr>fraction_bits = 4, integer_bits = Some 2, scale = 16, roundup = 8, thresh = Some 32\<rparr>,
       scaledval = - 24\<rparr> \<and>
   from2c \<lparr>fraction_bits = 4, integer_bits = Some 2, scale = 16, roundup = 8, thresh = Some 32\<rparr> 7 (Some 1)
     = Inr \<lparr>family = \<lparr>fraction_bits = 4, integer_bits = Some 2, scale = 16, roundup = 8, thresh = Some 32\<rparr>,
       scaledval = 7\<rparr>"
proof -
  have fam: "FXfamily_init 4 (Some 2)
     = Inr \<lparr>fraction_bits = 4, integer_bits = Some 2, scale = 16, roundup = 8, thresh = Some 32\<rparr>"
    by (simp add: FXfamily_init_def py_lshift_def)
  have fam': "FXfamily_init 4 None
     = Inr \<lparr>fraction_bits = 4, integer_bits = None, scale = 16, roundup = 8, thresh = None\<rparr>"
    by (simp add: FXfamily_init_def py_lshift_def)
  from from2c_decode [of 4 None
      "\<lparr>fraction_bits = 4, integer_bits = None, scale = 16, roundup = 8, thresh = None\<rparr>" 7 None 0]
    from2c_decode [of 4 "Some 2"
      "\<lparr>fraction_bits = 4, integer_bits = Some 2, scale = 16, roundup = 8, thresh = Some 32\<rparr>" 64 None 2]
    from2c_decode [of 4 "Some 2"
      "\<lparr>fraction_bits = 4, integer_bits = Some 2, scale = 16, roundup = 8, thresh = Some 32\<rparr>" 40 None 2]
    from2c_decode [of 4 "Some 2"
      "\<lparr>fraction_bits = 4, integer_bits = Some 2, scale = 16, roundup = 8, thresh = Some 32\<rparr>" 7 "Some 1" 1]
    fam fam'
  show ?thesis
    by (simp add: validate_def)
qed

text \<open>
  Claim C9 as it is written returns the decoded number for all raw bits in range. With
  an override of 4 integer bits on a family of 4 fractional and 2 integer bits, the raw
  bits 40 are in range and decode to 40, which the family, whose range ends at 32,
  rejects.
\<close>

theorem from2c_override_counterexample:
  "FXfamily_init 4 (Some 2)
     = Inr \<lparr>fraction_bits = 4, integer_bits = Some 2, scale = 16, roundup = 8, thresh = Some 32\<rparr> \<and>
   (0::int) \<le> 40 \<and> (40::int) < 2 ^ nat (4 + 4) \<and> (40::int) < 2 ^ nat (4 + 4 - 1) \<and>
   from2c \<lparr>fraction_bits = 4, integer_bits = Some 2, scale = 16, roundup = 8, thresh = Some 32\<rparr> 40 (Some 4)
     = Inl FXoverflowError"
  by (simp add: FXfamily_init_def py_lshift_def from2c_def py_rshift_def rawbuild_def
      validate_def)

subsection \<open>Comparing a family with another object\<close>

lemma load_global_false [simp]: "load_global ''false'' = Inl NameError"
  by (simp add: load_global_def)

lemma load_global_true [simp]: "load_global ''true'' = Inl NameError"
  by (simp add: load_global_def)

lemma FXfamily_eq_NameError_iff:
  "FXfamily_eq self other = Inl NameError \<longleftrightarrow>
     fraction_bits_attr other = None \<or>
     (fraction_bits_attr other = Some (Some (fraction_bits self)) \<and>
      integer_bits_attr other = None)"
  by (auto simp: FXfamily_eq_def split: option.splits)

lemma FXfamily_ne_NameError_iff:
  "FXfamily_ne self other = Inl NameError \<longleftrightarrow>
     fraction_bits_attr other = None \<or>
     (fraction_bits_attr other = Some (Some (fraction_bits self)) \<and>
      integer_bits_attr other = None)"
  by (auto simp: FXfamily_ne_def split: option.splits)

lemma FXfamily_eq_families:
  "FXfamily_eq a (family_obj b) =
     Inr (fraction_bits a = fraction_bits b \<and> integer_bits a = integer_bits b)"
  by (simp add: FXfamily_eq_def family_obj_def)

lemma FXfamily_short_circuit:
  assumes "fraction_bits_attr other = Some fb" and "fb \<noteq> Some (fraction_bits self)"
  shows "FXfamily_eq self other = Inr False" and "FXfamily_ne self other = Inr True"
  using assms by (auto simp: FXfamily_eq_def FXfamily_ne_def)

text \<open>
  Claim C10. Comparing a family with an object that has no attribute
  \<open>fraction_bits\<close>, whatever else it has, raises \<open>NameError\<close> for \<open>==\<close> and for
  \<open>!=\<close>: the handler of the missing attribute reads a name that is bound nowhere. The
  same happens for an object that has the family's \<open>fraction_bits\<close> and no
  \<open>integer_bits\<close>.
\<close>

theorem family_comparison_NameError:
  "(fraction_bits_attr other = None \<longrightarrow>
      FXfamily_eq self other = Inl NameError \<and> FXfamily_ne self other = Inl NameError) \<and>
   (fraction_bits_attr other = Some (Some (fraction_bits self)) \<and>
    integer_bits_attr other = None \<longrightarrow>
      FXfamily_eq self other = Inl NameError \<and> FXfamily_ne self other = Inl NameError)"
  by (simp add: FXfamily_eq_NameError_iff FXfamily_ne_NameError_iff)

theorem family_comparison_NameError_witness:
  "FXfamily_eq
     \<lparr>fraction_bits = 4, integer_bits = None, scale = 16, roundup = 8, thresh = None\<rparr>
     \<lparr>fraction_bits_attr = None, integer_bits_attr = None\<rparr> = Inl NameError \<and>
   FXfamily_ne
     \<lparr>fraction_bits = 4, integer_bits = None, scale = 16, roundup = 8, thresh = None\<rparr>
     \<lparr>fraction_bits_attr = None, integer_bits_attr = None\<rparr> = Inl NameError \<and>
   FXfamily_eq
     \<lparr>fraction_bits = 4, integer_bits = None, scale = 16, roundup = 8, thresh = None\<rparr>
     \<lparr>fraction_bits_attr = Some (Some 4), integer_bits_attr = None\<rparr> = Inl NameError"
  using
    family_comparison_NameError [of "\<lparr>fraction_bits_attr = None, integer_bits_attr = None\<rparr>"
      "\<lparr>fraction_bits = 4, integer_bits = None, scale = 16, roundup = 8, thresh = None\<rparr>"]
    family_comparison_NameError [of
      "\<lparr>fraction_bits_attr = Some (Some 4), integer_bits_attr = None\<rparr>"
      "\<lparr>fraction_bits = 4, integer_bits = None, scale = 16, roundup = 8, thresh = None\<rparr>"]
  by simp

subsection \<open>Overflow at every point where a number is built\<close>

lemma float_candidate:
  assumes fam: "FXfamily_init n ib = Inr fam" and fd: "fd \<noteq> 0"
  shows "FXnum_init (PyFloat fn fd) fam None =
           rawbuild fam
             (((fn * 2 ^ nat (n + 1) * 2 ^ nat (n + 1) + 2 ^ nat n)
                 div (fd * 2 ^ nat (n + 1)) + 1) div 2)"
proof -
  from fam have n: "1 \<le> n" and fb: "fraction_bits fam = n"
    by (simp_all add: FXfamily_init_Inr)
  define tmpfam where "tmpfam = \<lparr> fraction_bits = n + 1, integer_bits = None,
      scale = 2 ^ nat (n + 1), roundup = 2 ^ nat n, thresh = None \<rparr>"
  have tmp: "FXfamily_init (fraction_bits fam + 1) None = Inr tmpfam"
    unfolding FXfamily_init_Inr fb tmpfam_def using n by simp
  have a: "FXnum_of_int fn tmpfam = Inr \<lparr> family = tmpfam, scaledval = fn * 2 ^ nat (n + 1) \<rparr>"
    and b: "FXnum_of_int fd tmpfam = Inr \<lparr> family = tmpfam, scaledval = fd * 2 ^ nat (n + 1) \<rparr>"
    by (simp_all add: FXnum_of_int_def tmpfam_def validate_def)
  have q: "truediv_same \<lparr> family = tmpfam, scaledval = fn * 2 ^ nat (n + 1) \<rparr>
                        \<lparr> family = tmpfam, scaledval = fd * 2 ^ nat (n + 1) \<rparr>
             = Inr \<lparr> family = tmpfam,
                     scaledval = (fn * 2 ^ nat (n + 1) * 2 ^ nat (n + 1) + 2 ^ nat n)
                                   div (fd * 2 ^ nat (n + 1)) \<rparr>"
    using fd by (simp add: truediv_same_def py_floordiv_def rawbuild_def validate_def tmpfam_def)
  show ?thesis
    by (simp add: FXnum_init_def tmp a b q py_rshift_nonneg rawbuild_def)
qed

lemma binop_rawbuild:
  assumes "CastOrFail a w = Inr b"
  shows "FXnum_add a w = rawbuild (family a) (scaledval a + scaledval b)"
    and "FXnum_sub a w = rawbuild (family a) (scaledval a - scaledval b)"
    and "scale (family a) \<noteq> 0 \<Longrightarrow>
           FXnum_mul a w =
             rawbuild (family a)
               ((scaledval a * scaledval b + roundup (family a)) div scale (family a))"
    and "scaledval b \<noteq> 0 \<Longrightarrow>
           FXnum_truediv a w =
             rawbuild (family a)
               ((scaledval a * scale (family a) + roundup (family a)) div scaledval b)"
  using assms
  by (simp_all add: FXnum_add_def FXnum_sub_def FXnum_mul_def FXnum_truediv_def
      truediv_same_def py_floordiv_def)

text \<open>
  Claim C2, as the code has it. Let a family be built with \<open>n\<close> fractional bits and
  \<open>i\<close> integer bits, the threshold exponent \<open>n + i - 1\<close> not negative. Every number a
  program holds in it has a scaled value in the two's-complement range
  \<open>- 2 ^ (n + i - 1) \<le> scaledval < 2 ^ (n + i - 1)\<close>, the lower end included. A
  candidate scaled value outside this range raises \<open>FXoverflowError\<close> wherever a number
  is built: in \<open>_rawbuild\<close>; in the constructor, whether the candidate is the keyword,
  the product of an integer with the scale, the rounded quotient of a float's ratio or
  the conversion of another number; in the negation and the modulus; in the sum, the
  difference, the product and the quotient with any operand that \<open>_CastOrFail_\<close>
  accepts; in the two shifts; and in \<open>from2c\<close> when the raw bits decode to it.
\<close>

theorem range_invariant:
  "FXfamily_init n (Some i) = Inr fam \<and> 0 \<le> n + i - 1 \<longrightarrow>
     (produced fam x \<longrightarrow>
        - (2 ^ nat (n + i - 1)) \<le> scaledval x \<and> scaledval x < 2 ^ nat (n + i - 1)) \<and>
     (sv < - (2 ^ nat (n + i - 1)) \<or> 2 ^ nat (n + i - 1) \<le> sv \<longrightarrow>
        rawbuild fam sv = Inl FXoverflowError \<and>
        FXnum_init (PyInt v) fam (Some sv) = Inl FXoverflowError \<and>
        (v * 2 ^ nat n = sv \<longrightarrow> FXnum_init (PyInt v) fam None = Inl FXoverflowError) \<and>
        (convert fam (family y) (scaledval y) = Inr sv \<longrightarrow>
           FXnum_init (PyFX y) fam kw = Inl FXoverflowError) \<and>
        FXnum_init (PyFloat fn fd) fam (Some sv) = Inl FXoverflowError \<and>
        (fd \<noteq> 0 \<and>
         ((fn * 2 ^ nat (n + 1) * 2 ^ nat (n + 1) + 2 ^ nat n)
            div (fd * 2 ^ nat (n + 1)) + 1) div 2 = sv \<longrightarrow>
           FXnum_init (PyFloat fn fd) fam None = Inl FXoverflowError) \<and>
        (family a = fam \<longrightarrow>
           (- scaledval a = sv \<longrightarrow> FXnum_neg a = Inl FXoverflowError) \<and>
           (scaledval a < 0 \<and> - scaledval a = sv \<longrightarrow> FXnum_abs a = Inl FXoverflowError) \<and>
           (CastOrFail a w = Inr b \<longrightarrow>
              (scaledval a + scaledval b = sv \<longrightarrow> FXnum_add a w = Inl FXoverflowError) \<and>
              (scaledval a - scaledval b = sv \<longrightarrow> FXnum_sub a w = Inl FXoverflowError) \<and>
              ((scaledval a * scaledval b + roundup fam) div scale fam = sv \<longrightarrow>
                 FXnum_mul a w = Inl FXoverflowError) \<and>
              (scaledval b \<noteq> 0 \<and>
               (scaledval a * scale fam + roundup fam) div scaledval b = sv \<longrightarrow>
                 FXnum_truediv a w = Inl FXoverflowError)) \<and>
           (0 \<le> k \<and> scaledval a * 2 ^ nat k = sv \<longrightarrow>
              FXnum_lshift a k = Inl FXoverflowError) \<and>
           (0 \<le> k \<and> scaledval a div 2 ^ nat k = sv \<longrightarrow>
              FXnum_rshift a k = Inl FXoverflowError)) \<and>
        ((ovr = Some j \<or> (ovr = None \<and> j = i)) \<and> 0 \<le> j \<and>
         0 \<le> raw \<and> raw < 2 ^ nat (n + j) \<and>
         (if raw < 2 ^ nat (n + j - 1) then raw else raw - 2 ^ nat (n + j)) = sv \<longrightarrow>
           from2c fam raw ovr = Inl FXoverflowError))"
proof (intro impI, elim conjE)
  assume fam: "FXfamily_init n (Some i) = Inr fam" and nonneg: "0 \<le> n + i - 1"
  note v = validate_bounded [OF fam nonneg]
  have sc: "scale fam = 2 ^ nat n"
    using fam by (simp add: FXfamily_init_Inr)
  have inv: "- (2 ^ nat (n + i - 1)) \<le> scaledval x \<and> scaledval x < 2 ^ nat (n + i - 1)"
    if "produced fam x"
  proof -
    from produced_valid [OF that] have "validate fam (scaledval x) = Inr ()"
      by simp
    then show ?thesis
      unfolding v by (simp split: if_splits)
  qed
  have out: "rawbuild fam sv = Inl FXoverflowError \<and>
        FXnum_init (PyInt v) fam (Some sv) = Inl FXoverflowError \<and>
        (v * 2 ^ nat n = sv \<longrightarrow> FXnum_init (PyInt v) fam None = Inl FXoverflowError) \<and>
        (convert fam (family y) (scaledval y) = Inr sv \<longrightarrow>
           FXnum_init (PyFX y) fam kw = Inl FXoverflowError) \<and>
        FXnum_init (PyFloat fn fd) fam (Some sv) = Inl FXoverflowError \<and>
        (fd \<noteq> 0 \<and>
         ((fn * 2 ^ nat (n + 1) * 2 ^ nat (n + 1) + 2 ^ nat n)
            div (fd * 2 ^ nat (n + 1)) + 1) div 2 = sv \<longrightarrow>
           FXnum_init (PyFloat fn fd) fam None = Inl FXoverflowError) \<and>
        (family a = fam \<longrightarrow>
           (- scaledval a = sv \<longrightarrow> FXnum_neg a = Inl FXoverflowError) \<and>
           (scaledval a < 0 \<and> - scaledval a = sv \<longrightarrow> FXnum_abs a = Inl FXoverflowError) \<and>
           (CastOrFail a w = Inr b \<longrightarrow>
              (scaledval a + scaledval b = sv \<longrightarrow> FXnum_add a w = Inl FXoverflowError) \<and>
              (scaledval a - scaledval b = sv \<longrightarrow> FXnum_sub a w = Inl FXoverflowError) \<and>
              ((scaledval a * scaledval b + roundup fam) div scale fam = sv \<longrightarrow>
                 FXnum_mul a w = Inl FXoverflowError) \<and>
              (scaledval b \<noteq> 0 \<and>
               (scaledval a * scale fam + roundup fam) div scaledval b = sv \<longrightarrow>
                 FXnum_truediv a w = Inl FXoverflowError)) \<and>
           (0 \<le> k \<and> scaledval a * 2 ^ nat k = sv \<longrightarrow>
              FXnum_lshift a k = Inl FXoverflowError) \<and>
           (0 \<le> k \<and> scaledval a div 2 ^ nat k = sv \<longrightarrow>
              FXnum_rshift a k = Inl FXoverflowError)) \<and>
        ((ovr = Some j \<or> (ovr = None \<and> j = i)) \<and> 0 \<le> j \<and>
         0 \<le> raw \<and> raw < 2 ^ nat (n + j) \<and>
         (if raw < 2 ^ nat (n + j - 1) then raw else raw - 2 ^ nat (n + j)) = sv \<longrightarrow>
           from2c fam raw ovr = Inl FXoverflowError)"
    if "sv < - (2 ^ nat (n + i - 1)) \<or> 2 ^ nat (n + i - 1) \<le> sv"
  proof -
    from that have bad: "validate fam sv = Inl FXoverflowError"
      unfolding v by auto
    then have rb: "rawbuild fam sv = Inl FXoverflowError"
      by (simp add: rawbuild_def)
    have ctor: "rawbuild fam sv = Inl FXoverflowError \<and>
        FXnum_init (PyInt v) fam (Some sv) = Inl FXoverflowError \<and>
        (v * 2 ^ nat n = sv \<longrightarrow> FXnum_init (PyInt v) fam None = Inl FXoverflowError) \<and>
        (convert fam (family y) (scaledval y) = Inr sv \<longrightarrow>
           FXnum_init (PyFX y) fam kw = Inl FXoverflowError) \<and>
        FXnum_init (PyFloat fn fd) fam (Some sv) = Inl FXoverflowError \<and>
        (fd \<noteq> 0 \<and>
         ((fn * 2 ^ nat (n + 1) * 2 ^ nat (n + 1) + 2 ^ nat n)
            div (fd * 2 ^ nat (n + 1)) + 1) div 2 = sv \<longrightarrow>
           FXnum_init (PyFloat fn fd) fam None = Inl FXoverflowError)"
      using bad rb float_candidate [OF fam, of fd fn]
      by (auto simp: FXnum_init_def sc)
    have neg: "FXnum_neg a = Inl FXoverflowError" if "family a = fam" "- scaledval a = sv"
      using that rb by (simp add: FXnum_neg_def)
    have abs: "FXnum_abs a = Inl FXoverflowError"
      if "family a = fam" "scaledval a < 0" "- scaledval a = sv"
      using that neg by (simp add: FXnum_abs_def)
    have bin: "(scaledval a + scaledval b = sv \<longrightarrow> FXnum_add a w = Inl FXoverflowError) \<and>
              (scaledval a - scaledval b = sv \<longrightarrow> FXnum_sub a w = Inl FXoverflowError) \<and>
              ((scaledval a * scaledval b + roundup fam) div scale fam = sv \<longrightarrow>
                 FXnum_mul a w = Inl FXoverflowError) \<and>
              (scaledval b \<noteq> 0 \<and>
               (scaledval a * scale fam + roundup fam) div scaledval b = sv \<longrightarrow>
                 FXnum_truediv a w = Inl FXoverflowError)"
      if fa: "family a = fam" and cast: "CastOrFail a w = Inr b"
    proof -
      have nz: "scale (family a) \<noteq> 0"
        by (simp add: fa sc)
      show ?thesis
        using rb binop_rawbuild(1,2) [OF cast] binop_rawbuild(3) [OF cast nz]
          binop_rawbuild(4) [OF cast]
        by (auto simp: fa)
    qed
    have shl: "FXnum_lshift a k = Inl FXoverflowError"
      if "family a = fam" "0 \<le> k" "scaledval a * 2 ^ nat k = sv"
      using that rb by (simp add: lshift_rawbuild)
    have shr: "FXnum_rshift a k = Inl FXoverflowError"
      if "family a = fam" "0 \<le> k" "scaledval a div 2 ^ nat k = sv"
      using that rb by (simp add: rshift_rawbuild)
    have ops: "(family a = fam \<longrightarrow>
           (- scaledval a = sv \<longrightarrow> FXnum_neg a = Inl FXoverflowError) \<and>
           (scaledval a < 0 \<and> - scaledval a = sv \<longrightarrow> FXnum_abs a = Inl FXoverflowError) \<and>
           (CastOrFail a w = Inr b \<longrightarrow>
              (scaledval a + scaledval b = sv \<longrightarrow> FXnum_add a w = Inl FXoverflowError) \<and>
              (scaledval a - scaledval b = sv \<longrightarrow> FXnum_sub a w = Inl FXoverflowError) \<and>
              ((scaledval a * scaledval b + roundup fam) div scale fam = sv \<longrightarrow>
                 FXnum_mul a w = Inl FXoverflowError) \<and>
              (scaledval b \<noteq> 0 \<and>
               (scaledval a * scale fam + roundup fam) div scaledval b = sv \<longrightarrow>
                 FXnum_truediv a w = Inl FXoverflowError)) \<and>
           (0 \<le> k \<and> scaledval a * 2 ^ nat k = sv \<longrightarrow>
              FXnum_lshift a k = Inl FXoverflowError) \<and>
           (0 \<le> k \<and> scaledval a div 2 ^ nat k = sv \<longrightarrow>
              FXnum_rshift a k = Inl FXoverflowError))"
      using neg abs bin shl shr by blast
    have f2c: "((ovr = Some j \<or> (ovr = None \<and> j = i)) \<and> 0 \<le> j \<and>
         0 \<le> raw \<and> raw < 2 ^ nat (n + j) \<and>
         (if raw < 2 ^ nat (n + j - 1) then raw else raw - 2 ^ nat (n + j)) = sv \<longrightarrow>
           from2c fam raw ovr = Inl FXoverflowError)"
    proof (intro impI, elim conjE)
      assume bits: "ovr = Some j \<or> (ovr = None \<and> j = i)" and j: "0 \<le> j"
        and lo: "0 \<le> raw" and hi: "raw < 2 ^ nat (n + j)"
        and dec: "(if raw < 2 ^ nat (n + j - 1) then raw else raw - 2 ^ nat (n + j)) = sv"
      from bits have bits': "ovr = Some j \<or> (ovr = None \<and> Some i = Some j)"
        by auto
      from lo hi have "\<not> (raw < 0 \<or> 2 ^ nat (n + j) \<le> raw)"
        by linarith
      then have "from2c fam raw ovr = rawbuild fam sv"
        by (simp only: from2c_known [OF fam bits' j] if_False dec)
      with rb show "from2c fam raw ovr = Inl FXoverflowError"
        by simp
    qed
    from ctor ops f2c show ?thesis
      by blast
  qed
  from inv out show "(produced fam x \<longrightarrow>
        - (2 ^ nat (n + i - 1)) \<le> scaledval x \<and> scaledval x < 2 ^ nat (n + i - 1)) \<and>
     (sv < - (2 ^ nat (n + i - 1)) \<or> 2 ^ nat (n + i - 1) \<le> sv \<longrightarrow>
        rawbuild fam sv = Inl FXoverflowError \<and>
        FXnum_init (PyInt v) fam (Some sv) = Inl FXoverflowError \<and>
        (v * 2 ^ nat n = sv \<longrightarrow> FXnum_init (PyInt v) fam None = Inl FXoverflowError) \<and>
        (convert fam (family y) (scaledval y) = Inr sv \<longrightarrow>
           FXnum_init (PyFX y) fam kw = Inl FXoverflowError) \<and>
        FXnum_init (PyFloat fn fd) fam (Some sv) = Inl FXoverflowError \<and>
        (fd \<noteq> 0 \<and>
         ((fn * 2 ^ nat (n + 1) * 2 ^ nat (n + 1) + 2 ^ nat n)
            div (fd * 2 ^ nat (n + 1)) + 1) div 2 = sv \<longrightarrow>
           FXnum_init (PyFloat fn fd) fam None = Inl FXoverflowError) \<and>
        (family a = fam \<longrightarrow>
           (- scaledval a = sv \<longrightarrow> FXnum_neg a = Inl FXoverflowError) \<and>
           (scaledval a < 0 \<and> - scaledval a = sv \<longrightarrow> FXnum_abs a = Inl FXoverflowError) \<and>
           (CastOrFail a w = Inr b \<longrightarrow>
              (scaledval a + scaledval b = sv \<longrightarrow> FXnum_add a w = Inl FXoverflowError) \<and>
              (scaledval a - scaledval b = sv \<longrightarrow> FXnum_sub a w = Inl FXoverflowError) \<and>
              ((scaledval a * scaledval b + roundup fam) div scale fam = sv \<longrightarrow>
                 FXnum_mul a w = Inl FXoverflowError) \<and>
              (scaledval b \<noteq> 0 \<and>
               (scaledval a * scale fam + roundup fam) div scaledval b = sv \<longrightarrow>
                 FXnum_truediv a w = Inl FXoverflowError)) \<and>
           (0 \<le> k \<and> scaledval a * 2 ^ nat k = sv \<longrightarrow>
              FXnum_lshift a k = Inl FXoverflowError) \<and>
           (0 \<le> k \<and> scaledval a div 2 ^ nat k = sv \<longrightarrow>
              FXnum_rshift a k = Inl FXoverflowError)) \<and>
        ((ovr = Some j \<or> (ovr = None \<and> j = i)) \<and> 0 \<le> j \<and>
         0 \<le> raw \<and> raw < 2 ^ nat (n + j) \<and>
         (if raw < 2 ^ nat (n + j - 1) then raw else raw - 2 ^ nat (n + j)) = sv \<longrightarrow>
           from2c fam raw ovr = Inl FXoverflowError))"
    by blast
qed

theorem range_invariant_witness:
  "produced \<lparr>fraction_bits = 4, integer_bits = Some 4, scale = 16, roundup = 8, thresh = Some 128\<rparr>
     \<lparr>family = \<lparr>fraction_bits = 4, integer_bits = Some 4, scale = 16, roundup = 8, thresh = Some 128\<rparr>,
       scaledval = - 128\<rparr> \<and>
   - (2 ^ nat (4 + 4 - 1)) \<le> (- 128 :: int) \<and> (- 128 :: int) < 2 ^ nat (4 + 4 - 1) \<and>
   rawbuild
     \<lparr>fraction_bits = 4, integer_bits = Some 4, scale = 16, roundup = 8, thresh = Some 128\<rparr>
     128 = Inl FXoverflowError \<and>
   FXnum_init (PyInt 8)
     \<lparr>fraction_bits = 4, integer_bits = Some 4, scale = 16, roundup = 8, thresh = Some 128\<rparr>
     None = Inl FXoverflowError \<and>
   FXnum_init
     (PyFX \<lparr>family = \<lparr>fraction_bits = 4, integer_bits = None, scale = 16, roundup = 8, thresh = None\<rparr>,
       scaledval = 128\<rparr>)
     \<lparr>fraction_bits = 4, integer_bits = Some 4, scale = 16, roundup = 8, thresh = Some 128\<rparr>
     None = Inl FXoverflowError \<and>
   FXnum_init (PyFloat 8 1)
     \<lparr>fraction_bits = 4, integer_bits = Some 4, scale = 16, roundup = 8, thresh = Some 128\<rparr>
     None = Inl FXoverflowError \<and>
   FXnum_neg
     \<lparr>family = \<lparr>fraction_bits = 4, integer_bits = Some 4, scale = 16, roundup = 8, thresh = Some 128\<rparr>,
       scaledval = - 128\<rparr> = Inl FXoverflowError \<and>
   FXnum_abs
     \<lparr>family = \<lparr>fraction_bits = 4, integer_bits = Some 4, scale = 16, roundup = 8, thresh = Some 128\<rparr>,
       scaledval = - 128\<rparr> = Inl FXoverflowError \<and>
   from2c
     \<lparr>fraction_bits = 4, integer_bits = Some 4, scale = 16, roundup = 8, thresh = Some 128\<rparr>
     128 (Some 5) = Inl FXoverflowError \<and>
   FXnum_add
     \<lparr>family = \<lparr>fraction_bits = 4, integer_bits = Some 4, scale = 16, roundup = 8, thresh = Some 128\<rparr>,
       scaledval = 100\<rparr>
     (PyFX \<lparr>family = \<lparr>fraction_bits = 4, integer_bits = Some 4, scale = 16, roundup = 8, thresh = Some 128\<rparr>,
       scaledval = 28\<rparr>) = Inl FXoverflowError \<and>
   FXnum_sub
     \<lparr>family = \<lparr>fraction_bits = 4, integer_bits = Some 4, scale = 16, roundup = 8, thresh = Some 128\<rparr>,
       scaledval = 100\<rparr>
     (PyFX \<lparr>family = \<lparr>fraction_bits = 4, integer_bits = Some 4, scale = 16, roundup = 8, thresh = Some 128\<rparr>,
       scaledval = - 28\<rparr>) = Inl FXoverflowError \<and>
   FXnum_mul
     \<lparr>family = \<lparr>fraction_bits = 4, integer_bits = Some 4, scale = 16, roundup = 8, thresh = Some 128\<rparr>,
       scaledval = 64\<rparr>
     (PyInt 2) = Inl FXoverflowError \<and>
   FXnum_truediv
     \<lparr>family = \<lparr>fraction_bits = 4, integer_bits = Some 4, scale = 16, roundup = 8, thresh = Some 128\<rparr>,
       scaledval = 72\<rparr>
     (PyFX \<lparr>family = \<lparr>fraction_bits = 4, integer_bits = Some 4, scale = 16, roundup = 8, thresh = Some 128\<rparr>,
       scaledval = 9\<rparr>) = Inl FXoverflowError \<and>
   FXnum_lshift
     \<lparr>family = \<lparr>fraction_bits = 4, integer_bits = Some 4, scale = 16, roundup = 8, thresh = Some 128\<rparr>,
       scaledval = 64\<rparr> 1 = Inl FXoverflowError \<and>
   FXnum_rshift
     \<lparr>family = \<lparr>fraction_bits = 4, integer_bits = Some 4, scale = 16, roundup = 8, thresh = Some 128\<rparr>,
       scaledval = 256\<rparr> 1 = Inl FXoverflowError"
proof -
  have fam: "FXfamily_init 4 (Some 4)
     = Inr \<lparr>fraction_bits = 4, integer_bits = Some 4, scale = 16, roundup = 8, thresh = Some 128\<rparr>"
    by (simp add: FXfamily_init_def py_lshift_def)
  have held: "produced \<lparr>fraction_bits = 4, integer_bits = Some 4, scale = 16, roundup = 8, thresh = Some 128\<rparr>
     \<lparr>family = \<lparr>fraction_bits = 4, integer_bits = Some 4, scale = 16, roundup = 8, thresh = Some 128\<rparr>,
       scaledval = - 128\<rparr>"
    by (rule produced.by_init [of "PyInt (- 8)" _ None])
       (simp add: FXnum_init_def validate_def)
  have same: "convert
      \<lparr>fraction_bits = 4, integer_bits = Some 4, scale = 16, roundup = 8, thresh = Some 128\<rparr>
      \<lparr>fraction_bits = 4, integer_bits = None, scale = 16, roundup = 8, thresh = None\<rparr> 128 = Inr 128"
    by (simp add: convert_def)
  have two: "CastOrFail
      \<lparr>family = \<lparr>fraction_bits = 4, integer_bits = Some 4, scale = 16, roundup = 8, thresh = Some 128\<rparr>,
       scaledval = 64\<rparr> (PyInt 2)
      = Inr \<lparr>family = \<lparr>fraction_bits = 4, integer_bits = Some 4, scale = 16, roundup = 8, thresh = Some 128\<rparr>,
       scaledval = 32\<rparr>"
    by (simp add: CastOrFail_def FXnum_init_def validate_def)
  have first: "produced \<lparr>fraction_bits = 4, integer_bits = Some 4, scale = 16, roundup = 8, thresh = Some 128\<rparr>
     \<lparr>family = \<lparr>fraction_bits = 4, integer_bits = Some 4, scale = 16, roundup = 8, thresh = Some 128\<rparr>,
       scaledval = - 128\<rparr> \<and>
   - (2 ^ nat (4 + 4 - 1)) \<le> (- 128 :: int) \<and> (- 128 :: int) < 2 ^ nat (4 + 4 - 1) \<and>
   rawbuild
     \<lparr>fraction_bits = 4, integer_bits = Some 4, scale = 16, roundup = 8, thresh = Some 128\<rparr>
     128 = Inl FXoverflowError \<and>
   FXnum_init (PyInt 8)
     \<lparr>fraction_bits = 4, integer_bits = Some 4, scale = 16, roundup = 8, thresh = Some 128\<rparr>
     None = Inl FXoverflowError \<and>
   FXnum_init
     (PyFX \<lparr>family = \<lparr>fraction_bits = 4, integer_bits = None, scale = 16, roundup = 8, thresh = None\<rparr>,
       scaledval = 128\<rparr>)
     \<lparr>fraction_bits = 4, integer_bits = Some 4, scale = 16, roundup = 8, thresh = Some 128\<rparr>
     None = Inl FXoverflowError \<and>
   FXnum_init (PyFloat 8 1)
     \<lparr>fraction_bits = 4, integer_bits = Some 4, scale = 16, roundup = 8, thresh = Some 128\<rparr>
     None = Inl FXoverflowError \<and>
   FXnum_neg
     \<lparr>family = \<lparr>fraction_bits = 4, integer_bits = Some 4, scale = 16, roundup = 8, thresh = Some 128\<rparr>,
       scaledval = - 128\<rparr> = Inl FXoverflowError \<and>
   FXnum_abs
     \<lparr>family = \<lparr>fraction_bits = 4, integer_bits = Some 4, scale = 16, roundup = 8, thresh = Some 128\<rparr>,
       scaledval = - 128\<rparr> = Inl FXoverflowError \<and>
   from2c
     \<lparr>fraction_bits = 4, integer_bits = Some 4, scale = 16, roundup = 8, thresh = Some 128\<rparr>
     128 (Some 5) = Inl FXoverflowError"
    using fam held same
      range_invariant [where
      n = "4"
      and i = "4"
      and fam = "\<lparr>fraction_bits = 4, integer_bits = Some 4, scale = 16, roundup = 8, thresh = Some 128\<rparr>"
      and x = "\<lparr>family = \<lparr>fraction_bits = 4, integer_bits = Some 4, scale = 16, roundup = 8, thresh = Some 128\<rparr>,
       scaledval = - 128\<rparr>"
      and sv = "128"
      and v = "8"
      and y = "\<lparr>family = \<lparr>fraction_bits = 4, integer_bits = None, scale = 16, roundup = 8, thresh = None\<rparr>,
       scaledval = 128\<rparr>"
      and kw = "None"
      and fn = "8"
      and fd = "1"
      and a = "\<lparr>family = \<lparr>fraction_bits = 4, integer_bits = Some 4, scale = 16, roundup = 8, thresh = Some 128\<rparr>,
       scaledval = - 128\<rparr>"
      and w = "PyFX \<lparr>family = \<lparr>fraction_bits = 4, integer_bits = Some 4, scale = 16, roundup = 8, thresh = Some 128\<rparr>,
       scaledval = 256\<rparr>"
      and b = "\<lparr>family = \<lparr>fraction_bits = 4, integer_bits = Some 4, scale = 16, roundup = 8, thresh = Some 128\<rparr>,
       scaledval = 256\<rparr>"
      and k = "1"
      and ovr = "Some 5"
      and j = "5"
      and raw = "128"]
    by simp
  have add: "FXnum_add
     \<lparr>family = \<lparr>fraction_bits = 4, integer_bits = Some 4, scale = 16, roundup = 8, thresh = Some 128\<rparr>,
       scaledval = 100\<rparr>
     (PyFX \<lparr>family = \<lparr>fraction_bits = 4, integer_bits = Some 4, scale = 16, roundup = 8, thresh = Some 128\<rparr>,
       scaledval = 28\<rparr>) = Inl FXoverflowError"
    using fam
      range_invariant [where
      n = "4"
      and i = "4"
      and fam = "\<lparr>fraction_bits = 4, integer_bits = Some 4, scale = 16, roundup = 8, thresh = Some 128\<rparr>"
      and x = "\<lparr>family = \<lparr>fraction_bits = 4, integer_bits = Some 4, scale = 16, roundup = 8, thresh = Some 128\<rparr>,
       scaledval = - 128\<rparr>"
      and sv = "128"
      and v = "8"
      and y = "\<lparr>family = \<lparr>fraction_bits = 4, integer_bits = None, scale = 16, roundup = 8, thresh = None\<rparr>,
       scaledval = 128\<rparr>"
      and kw = "None"
      and fn = "8"
      and fd = "1"
      and a = "\<lparr>family = \<lparr>fraction_bits = 4, integer_bits = Some 4, scale = 16, roundup = 8, thresh = Some 128\<rparr>,
       scaledval = 100\<rparr>"
      and w = "PyFX \<lparr>family = \<lparr>fraction_bits = 4, integer_bits = Some 4, scale = 16, roundup = 8, thresh = Some 128\<rparr>,
       scaledval = 28\<rparr>"
      and b = "\<lparr>family = \<lparr>fraction_bits = 4, integer_bits = Some 4, scale = 16, roundup = 8, thresh = Some 128\<rparr>,
       scaledval = 28\<rparr>"
      and k = "1"
      and ovr = "Some 5"
      and j = "5"
      and raw = "128"]
    by (simp add: CastOrFail_same)
  have sub: "FXnum_sub
     \<lparr>family = \<lparr>fraction_bits = 4, integer_bits = Some 4, scale = 16, roundup = 8, thresh = Some 128\<rparr>,
       scaledval = 100\<rparr>
     (PyFX \<lparr>family = \<lparr>fraction_bits = 4, integer_bits = Some 4, scale = 16, roundup = 8, thresh = Some 128\<rparr>,
       scaledval = - 28\<rparr>) = Inl FXoverflowError"
    using fam
      range_invariant [where
      n = "4"
      and i = "4"
      and fam = "\<lparr>fraction_bits = 4, integer_bits = Some 4, scale = 16, roundup = 8, thresh = Some 128\<rparr>"
      and x = "\<lparr>family = \<lparr>fraction_bits = 4, integer_bits = Some 4, scale = 16, roundup = 8, thresh = Some 128\<rparr>,
       scaledval = - 128\<rparr>"
      and sv = "128"
      and v = "8"
      and y = "\<lparr>family = \<lparr>fraction_bits = 4, integer_bits = None, scale = 16, roundup = 8, thresh = None\<rparr>,
       scaledval = 128\<rparr>"
      and kw = "None"
      and fn = "8"
      and fd = "1"
      and a = "\<lparr>family = \<lparr>fraction_bits = 4, integer_bits = Some 4, scale = 16, roundup = 8, thresh = Some 128\<rparr>,
       scaledval = 100\<rparr>"
      and w = "PyFX \<lparr>family = \<lparr>fraction_bits = 4, integer_bits = Some 4, scale = 16, roundup = 8, thresh = Some 128\<rparr>,
       scaledval = - 28\<rparr>"
      and b = "\<lparr>family = \<lparr>fraction_bits = 4, integer_bits = Some 4, scale = 16, roundup = 8, thresh = Some 128\<rparr>,
       scaledval = - 28\<rparr>"
      and k = "1"
      and ovr = "Some 5"
      and j = "5"
      and raw = "128"]
    by (simp add: CastOrFail_same)
  have mul: "FXnum_mul
     \<lparr>family = \<lparr>fraction_bits = 4, integer_bits = Some 4, scale = 16, roundup = 8, thresh = Some 128\<rparr>,
       scaledval = 64\<rparr>
     (PyInt 2) = Inl FXoverflowError"
    using fam two
      range_invariant [where
      n = "4"
      and i = "4"
      and fam = "\<lparr>fraction_bits = 4, integer_bits = Some 4, scale = 16, roundup = 8, thresh = Some 128\<rparr>"
      and x = "\<lparr>family = \<lparr>fraction_bits = 4, integer_bits = Some 4, scale = 16, roundup = 8, thresh = Some 128\<rparr>,
       scaledval = - 128\<rparr>"
      and sv = "128"
      and v = "8"
      and y = "\<lparr>family = \<lparr>fraction_bits = 4, integer_bits = None, scale = 16, roundup = 8, thresh = None\<rparr>,
       scaledval = 128\<rparr>"
      and kw = "None"
      and fn = "8"
      and fd = "1"
      and a = "\<lparr>family = \<lparr>fraction_bits = 4, integer_bits = Some 4, scale = 16, roundup = 8, thresh = Some 128\<rparr>,
       scaledval = 64\<rparr>"
      and w = "PyInt 2"
      and b = "\<lparr>family = \<lparr>fraction_bits = 4, integer_bits = Some 4, scale = 16, roundup = 8, thresh = Some 128\<rparr>,
       scaledval = 32\<rparr>"
      and k = "1"
      and ovr = "Some 5"
      and j = "5"
      and raw = "128"]
    by simp
  have quot: "FXnum_truediv
     \<lparr>family = \<lparr>fraction_bits = 4, integer_bits = Some 4, scale = 16, roundup = 8, thresh = Some 128\<rparr>,
       scaledval = 72\<rparr>
     (PyFX \<lparr>family = \<lparr>fraction_bits = 4, integer_bits = Some 4, scale = 16, roundup = 8, thresh = Some 128\<rparr>,
       scaledval = 9\<rparr>) = Inl FXoverflowError"
    using fam
      range_invariant [where
      n = "4"
      and i = "4"
      and fam = "\<lparr>fraction_bits = 4, integer_bits = Some 4, scale = 16, roundup = 8, thresh = Some 128\<rparr>"
      and x = "\<lparr>family = \<lparr>fraction_bits = 4, integer_bits = Some 4, scale = 16, roundup = 8, thresh = Some 128\<rparr>,
       scaledval = - 128\<rparr>"
      and sv = "128"
      and v = "8"
      and y = "\<lparr>family = \<lparr>fraction_bits = 4, integer_bits = None, scale = 16, roundup = 8, thresh = None\<rparr>,
       scaledval = 128\<rparr>"
      and kw = "None"
      and fn = "8"
      and fd = "1"
      and a = "\<lparr>family = \<lparr>fraction_bits = 4, integer_bits = Some 4, scale = 16, roundup = 8, thresh = Some 128\<rparr>,
       scaledval = 72\<rparr>"
      and w = "PyFX \<lparr>family = \<lparr>fraction_bits = 4, integer_bits = Some 4, scale = 16, roundup = 8, thresh = Some 128\<rparr>,
       scaledval = 9\<rparr>"
      and b = "\<lparr>family = \<lparr>fraction_bits = 4, integer_bits = Some 4, scale = 16, roundup = 8, thresh = Some 128\<rparr>,
       scaledval = 9\<rparr>"
      and k = "1"
      and ovr = "Some 5"
      and j = "5"
      and raw = "128"]
    by (simp add: CastOrFail_same)
  have shl: "FXnum_lshift
     \<lparr>family = \<lparr>fraction_bits = 4, integer_bits = Some 4, scale = 16, roundup = 8, thresh = Some 128\<rparr>,
       scaledval = 64\<rparr> 1 = Inl FXoverflowError"
    using fam
      range_invariant [where
      n = "4"
      and i = "4"
      and fam = "\<lparr>fraction_bits = 4, integer_bits = Some 4, scale = 16, roundup = 8, thresh = Some 128\<rparr>"
      and x = "\<lparr>family = \<lparr>fraction_bits = 4, integer_bits = Some 4, scale = 16, roundup = 8, thresh = Some 128\<rparr>,
       scaledval = - 128\<rparr>"
      and sv = "128"
      and v = "8"
      and y = "\<lparr>family = \<lparr>fraction_bits = 4, integer_bits = None, scale = 16, roundup = 8, thresh = None\<rparr>,
       scaledval = 128\<rparr>"
      and kw = "None"
      and fn = "8"
      and fd = "1"
      and a = "\<lparr>family = \<lparr>fraction_bits = 4, integer_bits = Some 4, scale = 16, roundup = 8, thresh = Some 128\<rparr>,
       scaledval = 64\<rparr>"
      and w = "PyFX \<lparr>family = \<lparr>fraction_bits = 4, integer_bits = Some 4, scale = 16, roundup = 8, thresh = Some 128\<rparr>,
       scaledval = 256\<rparr>"
      and b = "\<lparr>family = \<lparr>fraction_bits = 4, integer_bits = Some 4, scale = 16, roundup = 8, thresh = Some 128\<rparr>,
       scaledval = 256\<rparr>"
      and k = "1"
      and ovr = "Some 5"
      and j = "5"
      and raw = "128"]
    by simp
  have shr: "FXnum_rshift
     \<lparr>family = \<lparr>fraction_bits = 4, integer_bits = Some 4, scale = 16, roundup = 8, thresh = Some 128\<rparr>,
       scaledval = 256\<rparr> 1 = Inl FXoverflowError"
    using fam
      range_invariant [where
      n = "4"
      and i = "4"
      and fam = "\<lparr>fraction_bits = 4, integer_bits = Some 4, scale = 16, roundup = 8, thresh = Some 128\<rparr>"
      and x = "\<lparr>family = \<lparr>fraction_bits = 4, integer_bits = Some 4, scale = 16, roundup = 8, thresh = Some 128\<rparr>,
       scaledval = - 128\<rparr>"
      and sv = "128"
      and v = "8"
      and y = "\<lparr>family = \<lparr>fraction_bits = 4, integer_bits = None, scale = 16, roundup = 8, thresh = None\<rparr>,
       scaledval = 128\<rparr>"
      and kw = "None"
      and fn = "8"
      and fd = "1"
      and a = "\<lparr>family = \<lparr>fraction_bits = 4, integer_bits = Some 4, scale = 16, roundup = 8, thresh = Some 128\<rparr>,
       scaledval = 256\<rparr>"
      and w = "PyFX \<lparr>family = \<lparr>fraction_bits = 4, integer_bits = Some 4, scale = 16, roundup = 8, thresh = Some 128\<rparr>,
       scaledval = 256\<rparr>"
      and b = "\<lparr>family = \<lparr>fraction_bits = 4, integer_bits = Some 4, scale = 16, roundup = 8, thresh = Some 128\<rparr>,
       scaledval = 256\<rparr>"
      and k = "1"
      and ovr = "Some 5"
      and j = "5"
      and raw = "128"]
    by simp
  from first add sub mul quot shl shr show ?thesis
    by blast
qed

text \<open>
  Claim C2 as it is written bounds the magnitude strictly. The validator accepts the
  lower end of the range: in a family of 4 fractional and 4 integer bits the number
  \<open>-8\<close> has the scaled value \<open>-128\<close>, whose magnitude is not below \<open>2 ^ 7\<close>.
\<close>

theorem magnitude_bound_counterexample:
  "FXfamily_init 4 (Some 4)
     = Inr \<lparr>fraction_bits = 4, integer_bits = Some 4, scale = 16, roundup = 8,
            thresh = Some 128\<rparr> \<and>
   FXnum_init (PyInt (- 8))
     \<lparr>fraction_bits = 4, integer_bits = Some 4, scale = 16, roundup = 8, thresh = Some 128\<rparr>
     None
     = Inr \<lparr>family = \<lparr>fraction_bits = 4, integer_bits = Some 4, scale = 16, roundup = 8,
                       thresh = Some 128\<rparr>,
            scaledval = - 128\<rparr> \<and>
   \<not> (\<bar>- 128\<bar> < (2::int) ^ nat (4 + 4 - 1))"
  by (simp add: FXfamily_init_def py_lshift_def FXnum_init_def validate_def)

end
